theory Spec2Isabelle
  imports Main "HOL-Library.AList" "HOL-Library.Multiset" "HOL-Library.Sublist"
begin

section \<open>The deployment trigger of piped (pkg/app/piped/trigger/trigger.go)\<close>

text \<open>
  The trigger groups candidates by Git repository, refreshes each repository once,
  and then walks the candidates of the group: load the deployment configuration,
  ask the determiner, create the deployment, advance the commit store, notify,
  report the command. Everything the Go code does besides computing values
  (Git operations, file reads, RPCs, notifications, log entries, writes to the
  commit store) is made explicit: the state carries the commit store and the
  trace of effects, in the order the code performs them. Of the log, the trace
  keeps the entries written with \<open>logger.Error\<close>; the Info and Warn lines of
  \<open>Run\<close> and of \<open>listCommandCandidates\<close> are left out. The loop of \<open>Run\<close> waits
  on two tickers and the context; its two ticker cases are \<open>syncTick\<close> and
  \<open>ondemandTick\<close>.
\<close>

subsection \<open>Data\<close>

text \<open>
  Go's \<open>error\<close> values. \<open>Canceled\<close> is \<open>context.Canceled\<close>, \<open>NotExist\<close> is an error
  for which \<open>os.IsNotExist\<close> holds, \<open>Errorf\<close> is any other error, with its message.
\<close>

datatype error = Canceled | NotExist string | Errorf string

fun Error :: "error \<Rightarrow> string" where
  "Error Canceled = ''context canceled''"
| "Error (NotExist m) = m"
| "Error (Errorf m) = m"

fun IsNotExist :: "error \<Rightarrow> bool" where
  "IsNotExist (NotExist m) = True"
| "IsNotExist Canceled = False"
| "IsNotExist (Errorf m) = False"

text \<open>The enumerations of the model package that the trigger reads.\<close>

type_synonym ApplicationKind = int

datatype ApplicationSyncStatus = SYNCED | OUT_OF_SYNC | OtherSyncStatus nat

datatype SyncStrategy = SyncStrategy_AUTO | OtherSyncStrategy nat

datatype CommandStatus = COMMAND_SUCCEEDED | OtherCommandStatus nat

datatype NotificationEventType = EVENT_DEPLOYMENT_TRIGGERED | EVENT_DEPLOYMENT_TRIGGER_FAILED

record ApplicationGitPath =
  RepoId :: string
  Path :: string
  ConfigPath :: string

record Application =
  appId :: string
  appName :: string
  appKind :: ApplicationKind
  appEnvId :: string
  GitPath :: ApplicationGitPath
  SyncStatus :: ApplicationSyncStatus

record SyncApplication =
  ApplicationId :: string
  cmdSyncStrategy :: SyncStrategy

text \<open>
  \<open>model.ReportableCommand\<close>: the command and its \<open>Report\<close> closure. The closure is
  an effect, so it lives in the world below; the record keeps the command's data.
  A candidate that is not a command candidate is built without a command and
  carries Go's zero value, \<open>noCommand\<close>; the code calls \<open>Report\<close> for command
  candidates only.
\<close>

record ReportableCommand =
  cmdId :: string
  Commander :: string
  GetSyncApplication :: "SyncApplication option"

definition noCommand :: ReportableCommand where
  "noCommand = \<lparr>cmdId = [], Commander = [], GetSyncApplication = None\<rparr>"

record Commit =
  Hash :: string
  Message :: string

text \<open>\<open>git.Repo\<close>: a cloned working copy, with \<open>GetPath()\<close> and \<open>GetClonedBranch()\<close>.\<close>

record Repo =
  GetPath :: string
  GetClonedBranch :: string

record DeploymentNotification =
  Mentions :: "(NotificationEventType \<times> string list) list"

record GenericDeploymentSpec =
  DeploymentNotification :: "DeploymentNotification option"

record Config =
  cfgKind :: string
  cfgSpec :: GenericDeploymentSpec

record Deployment =
  deploymentId :: string
  deploymentEnvId :: string

record Environment =
  envName :: string

datatype NotificationMetadata =
    NotificationEventDeploymentTriggered Deployment string "string list"
  | NotificationEventDeploymentTriggerFailed Application string string string

record NotificationEvent =
  Type :: NotificationEventType
  Metadata :: NotificationMetadata

datatype candidateKind = commitCandidate | commandCandidate | outOfSyncCandidate

record candidate =
  application :: Application
  kind :: candidateKind
  command :: ReportableCommand

text \<open>
  The determiner bundle built once per repository group. The on-commit determiner
  closes over the working copy and the head commit hash.
\<close>

datatype determiner =
    OnCommandDeterminer
  | OnOutOfSyncDeterminer
  | OnCommitDeterminer Repo string

record determiners =
  onCommand :: determiner
  onOutOfSync :: determiner
  onCommit :: determiner

record applicationLister =
  lister_Get :: "string \<Rightarrow> Application option"
  lister_List :: "Application list"

record Trigger =
  appLister :: applicationLister
  ListApplicationCommands :: "ReportableCommand list"
  gitRepos :: "string \<rightharpoonup> Repo"

subsection \<open>Effects\<close>

text \<open>
  One entry per effect, carrying the arguments of the call and what it returned.
\<close>

datatype event =
    EvPull Repo string "error option"
  | EvGetLatestCommit Repo "error + Commit"
  | EvLoadFromYAML string "error + Config"
  | EvShouldTrigger determiners candidateKind Application GenericDeploymentSpec "error + bool"
  | EvTriggerDeployment Application GenericDeploymentSpec string Commit string SyncStrategy
      "error + Deployment"
  | EvPut string string
  | EvEnvGet string "error + Environment"
  | EvNotify NotificationEvent
  | EvReport ReportableCommand CommandStatus "(string \<times> string) list" "error option"
  | EvLogError string error

record state =
  commitStore :: "string \<rightharpoonup> string"
  trace :: "event list"

text \<open>
  The collaborators of the trigger. None of them is defined in trigger.go, so each
  is a parameter. An effectful collaborator reads the whole state reached so far
  (the trace grows with every call, so two calls with the same arguments may
  answer differently). \<open>ShouldTrigger\<close> stands for
  \<open>ds.Determiner(kind).ShouldTrigger(ctx, app, appCfg)\<close>; the on-commit determiner
  holds the commit store and may fill it on a read, so it also returns the store.
  \<open>triggerDeployment\<close> builds the deployment model from its arguments and submits
  it with the CreateDeployment RPC. \<open>rangePick\<close> is the choice Go's runtime makes
  when ranging over a map: which of the remaining keys comes next.
\<close>

record world =
  Pull :: "state \<Rightarrow> Repo \<Rightarrow> string \<Rightarrow> error option"
  GetLatestCommit :: "state \<Rightarrow> Repo \<Rightarrow> error + Commit"
  LoadFromYAML :: "state \<Rightarrow> string \<Rightarrow> error + Config"
  ShouldTrigger :: "state \<Rightarrow> determiners \<Rightarrow> candidateKind \<Rightarrow> Application
    \<Rightarrow> GenericDeploymentSpec \<Rightarrow> (error + bool) \<times> (string \<rightharpoonup> string)"
  triggerDeployment :: "state \<Rightarrow> Application \<Rightarrow> GenericDeploymentSpec \<Rightarrow> string \<Rightarrow> Commit
    \<Rightarrow> string \<Rightarrow> SyncStrategy \<Rightarrow> error + Deployment"
  EnvGet :: "state \<Rightarrow> string \<Rightarrow> error + Environment"
  Report :: "state \<Rightarrow> ReportableCommand \<Rightarrow> CommandStatus \<Rightarrow> (string \<times> string) list
    \<Rightarrow> error option"
  ctxErr :: "state \<Rightarrow> error option"
  GetDeploymentConfigFilePath :: "ApplicationGitPath \<Rightarrow> string"
  Join :: "string \<Rightarrow> string \<Rightarrow> string"
  ToApplicationKind :: "string \<Rightarrow> ApplicationKind \<times> bool"
  GetGenericDeployment :: "Config \<Rightarrow> GenericDeploymentSpec \<times> bool"
  FindSlackAccounts :: "DeploymentNotification \<Rightarrow> NotificationEventType \<Rightarrow> string list"
  KindString :: "ApplicationKind \<Rightarrow> string"
  rangePick :: "string list \<Rightarrow> nat"

definition emit :: "event \<Rightarrow> state \<Rightarrow> state" where
  "emit e s = s\<lparr>trace := trace s @ [e]\<rparr>"

definition triggeredDeploymentIDKey :: string where
  "triggeredDeploymentIDKey = ''TriggeredDeploymentID''"

text \<open>
  Modelled from the spec: the commit store (lastTriggeredCommitStore) is declared
  in another file of the package. \<open>Put(appId, hash)\<close> unconditionally inserts into
  the cache and makes no RPC. The bound of the cache is not modelled.
\<close>

definition Put :: "string \<Rightarrow> string \<Rightarrow> state \<Rightarrow> state" where
  "Put app h s = emit (EvPut app h) (s\<lparr>commitStore := (commitStore s)(app \<mapsto> h)\<rparr>)"

subsection \<open>Notifications\<close>

definition notifyDeploymentTriggered ::
  "world \<Rightarrow> GenericDeploymentSpec \<Rightarrow> Deployment \<Rightarrow> state \<Rightarrow> state" where
  "notifyDeploymentTriggered w appCfg d s =
     (let mentions = (case DeploymentNotification appCfg of
                        Some n \<Rightarrow> FindSlackAccounts w n EVENT_DEPLOYMENT_TRIGGERED
                      | None \<Rightarrow> []);
          r = EnvGet w s (deploymentEnvId d);
          s1 = emit (EvEnvGet (deploymentEnvId d) r) s
      in case r of
           Inr env \<Rightarrow>
             emit (EvNotify \<lparr>Type = EVENT_DEPLOYMENT_TRIGGERED,
                     Metadata = NotificationEventDeploymentTriggered d (envName env) mentions\<rparr>) s1
         | Inl err \<Rightarrow> s1)"

definition notifyDeploymentTriggerFailed ::
  "Application \<Rightarrow> string \<Rightarrow> Commit \<Rightarrow> state \<Rightarrow> state" where
  "notifyDeploymentTriggerFailed app reason commit s =
     emit (EvNotify \<lparr>Type = EVENT_DEPLOYMENT_TRIGGER_FAILED,
             Metadata = NotificationEventDeploymentTriggerFailed app (Hash commit)
               (Message commit) reason\<rparr>) s"

subsection \<open>Loading the deployment configuration\<close>

definition loadDeploymentConfiguration ::
  "world \<Rightarrow> string \<Rightarrow> Application \<Rightarrow> state \<Rightarrow> (error + GenericDeploymentSpec) \<times> state" where
  "loadDeploymentConfiguration w repoPath app s =
     (let relPath = GetDeploymentConfigFilePath w (GitPath app);
          absPath = Join w repoPath relPath;
          r = LoadFromYAML w s absPath;
          s1 = emit (EvLoadFromYAML absPath r) s
      in case r of
           Inl err \<Rightarrow>
             if IsNotExist err
             then (Inl (Errorf (''application config file '' @ relPath @ '' was not found in Git'')), s1)
             else (Inl err, s1)
         | Inr cfg \<Rightarrow>
             (case ToApplicationKind w (cfgKind cfg) of
                (k, ok) \<Rightarrow>
                  if \<not> ok \<or> k \<noteq> appKind app
                  then (Inl (Errorf (''invalid application kind in the deployment config file, got: ''
                          @ KindString w k @ '', expected: '' @ KindString w (appKind app))), s1)
                  else (case GetGenericDeployment w cfg of
                          (spec, ok2) \<Rightarrow>
                            if \<not> ok2
                            then (Inl (Errorf (''unsupported application kind: ''
                                    @ KindString w (appKind app))), s1)
                            else (Inr spec, s1))))"

subsection \<open>Refreshing a repository\<close>

definition updateRepoToLatest ::
  "Trigger \<Rightarrow> world \<Rightarrow> string \<Rightarrow> state \<Rightarrow> (error + Repo \<times> string \<times> Commit) \<times> state" where
  "updateRepoToLatest t w repoID s =
     (case gitRepos t repoID of
        None \<Rightarrow> (Inl (Errorf ''the repository was not registered in Piped configuration''), s)
      | Some repo \<Rightarrow>
          (let branch = GetClonedBranch repo;
               r = Pull w s repo branch;
               s1 = emit (EvPull repo branch r) s
           in case r of
                Some err \<Rightarrow> (Inl err, s1)
              | None \<Rightarrow>
                  (let r2 = GetLatestCommit w s1 repo;
                       s2 = emit (EvGetLatestCommit repo r2) s1
                   in case r2 of
                        Inl err \<Rightarrow> (Inl err, s2)
                      | Inr headCommit \<Rightarrow> (Inr (repo, branch, headCommit), s2))))"

subsection \<open>Checking the candidates of one repository\<close>

definition callShouldTrigger ::
  "world \<Rightarrow> determiners \<Rightarrow> candidateKind \<Rightarrow> Application \<Rightarrow> GenericDeploymentSpec \<Rightarrow> state
     \<Rightarrow> (error + bool) \<times> state" where
  "callShouldTrigger w ds k app appCfg s =
     (case ShouldTrigger w s ds k app appCfg of
        (r, store) \<Rightarrow> (r, emit (EvShouldTrigger ds k app appCfg r) (s\<lparr>commitStore := store\<rparr>)))"

definition callTriggerDeployment ::
  "world \<Rightarrow> Application \<Rightarrow> GenericDeploymentSpec \<Rightarrow> string \<Rightarrow> Commit \<Rightarrow> string \<Rightarrow> SyncStrategy
     \<Rightarrow> state \<Rightarrow> (error + Deployment) \<times> state" where
  "callTriggerDeployment w app appCfg branch commit commander strategy s =
     (let r = triggerDeployment w s app appCfg branch commit commander strategy
      in (r, emit (EvTriggerDeployment app appCfg branch commit commander strategy r) s))"

definition callReport ::
  "world \<Rightarrow> ReportableCommand \<Rightarrow> CommandStatus \<Rightarrow> (string \<times> string) list \<Rightarrow> state
     \<Rightarrow> error option \<times> state" where
  "callReport w cmd status metadata s =
     (let r = Report w s cmd status metadata
      in (r, emit (EvReport cmd status metadata r) s))"

definition determineFailedMsg :: "Application \<Rightarrow> error \<Rightarrow> string" where
  "determineFailedMsg app err =
     ''failed while determining whether application '' @ appName app
       @ '' should be triggered or not: '' @ Error err"

definition triggerFailedMsg :: "Application \<Rightarrow> error \<Rightarrow> string" where
  "triggerFailedMsg app err = ''failed to trigger application '' @ appId app @ '': '' @ Error err"

text \<open>The body of the loop over the candidates of a group (one candidate).\<close>

definition checkCandidate ::
  "world \<Rightarrow> Repo \<Rightarrow> string \<Rightarrow> Commit \<Rightarrow> determiners \<Rightarrow> candidate \<Rightarrow> state \<Rightarrow> state" where
  "checkCandidate w gitRepo branch headCommit ds c s =
     (let app = application c in
      case loadDeploymentConfiguration w (GetPath gitRepo) app s of
        (Inl err, s1) \<Rightarrow> emit (EvLogError ''failed to load application config file'' err) s1
      | (Inr appCfg, s1) \<Rightarrow>
          (case callShouldTrigger w ds (kind c) app appCfg s1 of
             (Inl err, s2) \<Rightarrow>
               (let msg = determineFailedMsg app err
                in emit (EvLogError msg err) (notifyDeploymentTriggerFailed app msg headCommit s2))
           | (Inr shouldTrigger, s2) \<Rightarrow>
               if \<not> shouldTrigger then Put (appId app) (Hash headCommit) s2
               else
                 (case callTriggerDeployment w app appCfg branch headCommit []
                         SyncStrategy_AUTO s2 of
                    (Inl err, s3) \<Rightarrow>
                      (let msg = triggerFailedMsg app err
                       in emit (EvLogError msg err)
                            (notifyDeploymentTriggerFailed app msg headCommit s3))
                  | (Inr deployment, s3) \<Rightarrow>
                      (let s4 = Put (appId app) (Hash headCommit) s3;
                           s5 = notifyDeploymentTriggered w appCfg deployment s4
                       in if kind c = commandCandidate
                          then
                            (let metadata = [(triggeredDeploymentIDKey, deploymentId deployment)]
                             in case callReport w (command c) COMMAND_SUCCEEDED metadata s5 of
                                  (Some err, s6) \<Rightarrow>
                                    emit (EvLogError ''failed to report command status'' err) s6
                                | (None, s6) \<Rightarrow> s6)
                          else s5))))"

fun checkLoop ::
  "world \<Rightarrow> Repo \<Rightarrow> string \<Rightarrow> Commit \<Rightarrow> determiners \<Rightarrow> candidate list \<Rightarrow> state \<Rightarrow> state" where
  "checkLoop w gitRepo branch headCommit ds [] s = s"
| "checkLoop w gitRepo branch headCommit ds (c # cs) s =
     checkLoop w gitRepo branch headCommit ds cs (checkCandidate w gitRepo branch headCommit ds c s)"

definition newDeterminers :: "Repo \<Rightarrow> Commit \<Rightarrow> determiners" where
  "newDeterminers gitRepo headCommit =
     \<lparr>onCommand = OnCommandDeterminer,
      onOutOfSync = OnOutOfSyncDeterminer,
      onCommit = OnCommitDeterminer gitRepo (Hash headCommit)\<rparr>"

definition checkRepoCandidates ::
  "Trigger \<Rightarrow> world \<Rightarrow> string \<Rightarrow> candidate list \<Rightarrow> state \<Rightarrow> error option \<times> state" where
  "checkRepoCandidates t w repoID cs s =
     (case updateRepoToLatest t w repoID s of
        (Inl err, s1) \<Rightarrow>
          (Some err,
           if ctxErr w s1 \<noteq> Some Canceled
           then emit (EvLogError (''failed to update git repository '' @ repoID @ '' to latest'') err) s1
           else s1)
      | (Inr (gitRepo, branch, headCommit), s1) \<Rightarrow>
          (None, checkLoop w gitRepo branch headCommit (newDeterminers gitRepo headCommit) cs s1))"

subsection \<open>Checking a batch\<close>

text \<open>
  The map from repository id to its candidates, as an association list in order
  of first insertion. Go ranges over the map in an order of the runtime's choice:
  \<open>mapRange\<close> takes the entries one by one, the next being the one \<open>pick\<close> selects
  among those left, so every order of the keys is the result of some \<open>pick\<close>.
\<close>

definition repoIdOf :: "candidate \<Rightarrow> string" where
  "repoIdOf c = RepoId (GitPath (application c))"

fun groupByRepo ::
  "candidate list \<Rightarrow> (string \<times> candidate list) list \<Rightarrow> (string \<times> candidate list) list" where
  "groupByRepo [] csm = csm"
| "groupByRepo (c # cs) csm =
     (let repoId = repoIdOf c
      in case map_of csm repoId of
           None \<Rightarrow> groupByRepo cs (csm @ [(repoId, [c])])
         | Some g \<Rightarrow> groupByRepo cs (AList.update repoId (g @ [c]) csm))"

function mapRange :: "(string list \<Rightarrow> nat) \<Rightarrow> (string \<times> 'v) list \<Rightarrow> (string \<times> 'v) list" where
  "mapRange pick [] = []"
| "mapRange pick (e # es) =
     (let i = pick (map fst (e # es)) mod length (e # es)
      in ((e # es) ! i) # mapRange pick (take i (e # es) @ drop (Suc i) (e # es)))"
  by pat_completeness auto
termination
  by (relation "measure (\<lambda>(pick, m). length m)") auto

fun checkGroups ::
  "Trigger \<Rightarrow> world \<Rightarrow> (string \<times> candidate list) list \<Rightarrow> error option \<Rightarrow> state
     \<Rightarrow> error option \<times> state" where
  "checkGroups t w [] err s = (err, s)"
| "checkGroups t w ((repoID, cs) # rest) err s =
     (case checkRepoCandidates t w repoID cs s of
        (Some e, s1) \<Rightarrow>
          checkGroups t w rest (Some e)
            (emit (EvLogError (''failed while checking applications in repo '' @ repoID) e) s1)
      | (None, s1) \<Rightarrow> checkGroups t w rest err s1)"

definition checkCandidates ::
  "Trigger \<Rightarrow> world \<Rightarrow> candidate list \<Rightarrow> state \<Rightarrow> error option \<times> state" where
  "checkCandidates t w cs s =
     checkGroups t w (mapRange (rangePick w) (groupByRepo cs [])) None s"

subsection \<open>Collecting candidates, and one sync tick\<close>

fun listCommandCandidatesFrom :: "Trigger \<Rightarrow> ReportableCommand list \<Rightarrow> candidate list" where
  "listCommandCandidatesFrom t [] = []"
| "listCommandCandidatesFrom t (cmd # cmds) =
     (case GetSyncApplication cmd of
        None \<Rightarrow> listCommandCandidatesFrom t cmds
      | Some syncCmd \<Rightarrow>
          (case lister_Get (appLister t) (ApplicationId syncCmd) of
             None \<Rightarrow> listCommandCandidatesFrom t cmds
           | Some app \<Rightarrow>
               \<lparr>application = app, kind = commandCandidate, command = cmd\<rparr>
                 # listCommandCandidatesFrom t cmds))"

definition listCommandCandidates :: "Trigger \<Rightarrow> candidate list" where
  "listCommandCandidates t = listCommandCandidatesFrom t (ListApplicationCommands t)"

fun outOfSyncFrom :: "Application list \<Rightarrow> candidate list" where
  "outOfSyncFrom [] = []"
| "outOfSyncFrom (app # list) =
     (if SyncStatus app \<noteq> OUT_OF_SYNC then outOfSyncFrom list
      else \<lparr>application = app, kind = outOfSyncCandidate, command = noCommand\<rparr>
             # outOfSyncFrom list)"

definition listOutOfSyncCandidates :: "Trigger \<Rightarrow> candidate list" where
  "listOutOfSyncCandidates t = outOfSyncFrom (lister_List (appLister t))"

fun commitFrom :: "Application list \<Rightarrow> candidate list" where
  "commitFrom [] = []"
| "commitFrom (app # list) =
     \<lparr>application = app, kind = commitCandidate, command = noCommand\<rparr> # commitFrom list"

definition listCommitCandidates :: "Trigger \<Rightarrow> candidate list" where
  "listCommitCandidates t = commitFrom (lister_List (appLister t))"

text \<open>The \<open>syncTicker\<close> case of the loop of \<open>Run\<close>.\<close>

definition syncTick :: "Trigger \<Rightarrow> world \<Rightarrow> state \<Rightarrow> error option \<times> state" where
  "syncTick t w s =
     (let commitCandidates = listCommitCandidates t;
          outOfSyncCandidates = listOutOfSyncCandidates t;
          candidates = commitCandidates @ outOfSyncCandidates
      in checkCandidates t w candidates s)"

text \<open>The \<open>ondemandTicker\<close> case.\<close>

definition ondemandTick :: "Trigger \<Rightarrow> world \<Rightarrow> state \<Rightarrow> error option \<times> state" where
  "ondemandTick t w s = checkCandidates t w (listCommandCandidates t) s"

section \<open>Reading the trace\<close>

text \<open>The effects a call performed: what it appended to the trace.\<close>

definition emitted :: "state \<Rightarrow> state \<Rightarrow> event list" where
  "emitted s s' = drop (length (trace s)) (trace s')"

definition grows :: "state \<Rightarrow> state \<Rightarrow> bool" where
  "grows s s' = prefix (trace s) (trace s')"

text \<open>The path of the configuration file that is read for an application.\<close>

definition absPath :: "world \<Rightarrow> Repo \<Rightarrow> Application \<Rightarrow> string" where
  "absPath w gitRepo app = Join w (GetPath gitRepo) (GetDeploymentConfigFilePath w (GitPath app))"

text \<open>Projections of a trace: the calls of one kind, in order.\<close>

fun loads :: "event list \<Rightarrow> string list" where
  "loads [] = []"
| "loads (EvLoadFromYAML p r # es) = p # loads es"
| "loads (e # es) = loads es"

fun pulls :: "event list \<Rightarrow> (Repo \<times> string) list" where
  "pulls [] = []"
| "pulls (EvPull repo b r # es) = (repo, b) # pulls es"
| "pulls (e # es) = pulls es"

fun latestCommits :: "event list \<Rightarrow> Repo list" where
  "latestCommits [] = []"
| "latestCommits (EvGetLatestCommit repo r # es) = repo # latestCommits es"
| "latestCommits (e # es) = latestCommits es"

fun notifications :: "event list \<Rightarrow> NotificationEvent list" where
  "notifications [] = []"
| "notifications (EvNotify n # es) = n # notifications es"
| "notifications (e # es) = notifications es"

fun puts :: "event list \<Rightarrow> (string \<times> string) list" where
  "puts [] = []"
| "puts (EvPut app h # es) = (app, h) # puts es"
| "puts (e # es) = puts es"

fun triggerCalls ::
  "event list \<Rightarrow> (Application \<times> GenericDeploymentSpec \<times> string \<times> Commit \<times> string \<times> SyncStrategy) list" where
  "triggerCalls [] = []"
| "triggerCalls (EvTriggerDeployment app cfg b h commander strategy r # es) =
     (app, cfg, b, h, commander, strategy) # triggerCalls es"
| "triggerCalls (e # es) = triggerCalls es"

fun reports ::
  "event list \<Rightarrow> (ReportableCommand \<times> CommandStatus \<times> (string \<times> string) list) list" where
  "reports [] = []"
| "reports (EvReport cmd status metadata r # es) = (cmd, status, metadata) # reports es"
| "reports (e # es) = reports es"

text \<open>The kinds of the candidates that reached their determiner, in order.\<close>

fun kindsProcessed :: "event list \<Rightarrow> candidateKind list" where
  "kindsProcessed [] = []"
| "kindsProcessed (EvShouldTrigger ds k app cfg r # es) = k # kindsProcessed es"
| "kindsProcessed (e # es) = kindsProcessed es"

text \<open>
  The errors of the groups that failed, in order: \<open>checkCandidates\<close> logs each one
  with the message "failed while checking applications in repo ...".
\<close>

fun groupErrors :: "event list \<Rightarrow> error list" where
  "groupErrors [] = []"
| "groupErrors (EvLogError m e # es) =
     (if prefix ''failed while checking applications in repo '' m
      then e # groupErrors es else groupErrors es)"
| "groupErrors (e # es) = groupErrors es"

definition lastError :: "error list \<Rightarrow> error option" where
  "lastError es = (if es = [] then None else Some (last es))"

definition failedEvent :: "Application \<Rightarrow> string \<Rightarrow> Commit \<Rightarrow> event" where
  "failedEvent app reason commit =
     EvNotify \<lparr>Type = EVENT_DEPLOYMENT_TRIGGER_FAILED,
       Metadata = NotificationEventDeploymentTriggerFailed app (Hash commit) (Message commit) reason\<rparr>"

text \<open>
  A trace reports its failures one by one: a determiner call or a deployment
  call that returned an error is followed at once by the DEPLOYMENT_TRIGGER_FAILED
  notification for that application and by the log entry with the same message,
  and no other DEPLOYMENT_TRIGGER_FAILED notification occurs.
\<close>

fun failuresReported :: "Commit \<Rightarrow> event list \<Rightarrow> bool" where
  "failuresReported h [] = True"
| "failuresReported h (EvShouldTrigger ds k app cfg (Inl err) # es) =
     (case es of
        n # l # es' \<Rightarrow>
          n = failedEvent app (determineFailedMsg app err) h
          \<and> l = EvLogError (determineFailedMsg app err) err
          \<and> failuresReported h es'
      | _ \<Rightarrow> False)"
| "failuresReported h (EvTriggerDeployment app cfg b c commander strategy (Inl err) # es) =
     (case es of
        n # l # es' \<Rightarrow>
          n = failedEvent app (triggerFailedMsg app err) h
          \<and> l = EvLogError (triggerFailedMsg app err) err
          \<and> failuresReported h es'
      | _ \<Rightarrow> False)"
| "failuresReported h (EvNotify n # es) =
     (Type n = EVENT_DEPLOYMENT_TRIGGERED \<and> failuresReported h es)"
| "failuresReported h (e # es) = failuresReported h es"

text \<open>The number of calls that returned an error to the loop over the candidates.\<close>

fun failedCalls :: "event list \<Rightarrow> nat" where
  "failedCalls [] = 0"
| "failedCalls (EvShouldTrigger ds k app cfg (Inl err) # es) = Suc (failedCalls es)"
| "failedCalls (EvTriggerDeployment app cfg b c commander strategy (Inl err) # es) =
     Suc (failedCalls es)"
| "failedCalls (e # es) = failedCalls es"

text \<open>The DEPLOYMENT_TRIGGER_FAILED notifications of a trace.\<close>

definition failedNotifications :: "event list \<Rightarrow> NotificationEvent list" where
  "failedNotifications es =
     filter (\<lambda>n. Type n = EVENT_DEPLOYMENT_TRIGGER_FAILED) (notifications es)"


text \<open>The three ways the configuration of an application fails to load.\<close>

definition configMissing :: "world \<Rightarrow> Repo \<Rightarrow> Application \<Rightarrow> state \<Rightarrow> bool" where
  "configMissing w gitRepo app s =
     (case LoadFromYAML w s (absPath w gitRepo app) of
        Inl err \<Rightarrow> IsNotExist err | Inr cfg \<Rightarrow> False)"

definition configUnreadable :: "world \<Rightarrow> Repo \<Rightarrow> Application \<Rightarrow> state \<Rightarrow> bool" where
  "configUnreadable w gitRepo app s =
     (case LoadFromYAML w s (absPath w gitRepo app) of
        Inl err \<Rightarrow> \<not> IsNotExist err | Inr cfg \<Rightarrow> False)"

definition kindMismatch :: "world \<Rightarrow> Repo \<Rightarrow> Application \<Rightarrow> state \<Rightarrow> bool" where
  "kindMismatch w gitRepo app s =
     (case LoadFromYAML w s (absPath w gitRepo app) of
        Inl err \<Rightarrow> False
      | Inr cfg \<Rightarrow>
          (case ToApplicationKind w (cfgKind cfg) of (k, ok) \<Rightarrow> \<not> ok \<or> k \<noteq> appKind app))"

text \<open>The error of \<open>updateRepoToLatest\<close> for a repository id that was never cloned.\<close>

definition notRegistered :: error where
  "notRegistered = Errorf ''the repository was not registered in Piped configuration''"



section \<open>Definitions used by the proofs\<close>

text \<open>The state after a call: the effects it appended and the commit store it left.\<close>

definition emits :: "state \<Rightarrow> event list \<Rightarrow> (string \<rightharpoonup> string) \<Rightarrow> state" where
  "emits s es m = \<lparr>commitStore = m, trace = trace s @ es\<rparr>"

text \<open>What follows a created deployment: the notification and the command report.\<close>

definition afterCreate ::
  "world \<Rightarrow> GenericDeploymentSpec \<Rightarrow> Deployment \<Rightarrow> candidate \<Rightarrow> state \<Rightarrow> event list" where
  "afterCreate w cfg d c s4 =
     (let re = EnvGet w s4 (deploymentEnvId d);
          s5 = notifyDeploymentTriggered w cfg d s4;
          md = [(triggeredDeploymentIDKey, deploymentId d)];
          rr = Report w s5 (command c) COMMAND_SUCCEEDED md
      in EvEnvGet (deploymentEnvId d) re
         # (case re of
              Inr env \<Rightarrow>
                [EvNotify \<lparr>Type = EVENT_DEPLOYMENT_TRIGGERED,
                   Metadata = NotificationEventDeploymentTriggered d (envName env)
                     (case DeploymentNotification cfg of
                        Some n \<Rightarrow> FindSlackAccounts w n EVENT_DEPLOYMENT_TRIGGERED | None \<Rightarrow> [])\<rparr>]
            | Inl err \<Rightarrow> [])
         @ (if kind c = commandCandidate
            then EvReport (command c) COMMAND_SUCCEEDED md rr
                 # (case rr of Some err \<Rightarrow> [EvLogError ''failed to report command status'' err]
                    | None \<Rightarrow> [])
            else []))"

text \<open>The Pull a group makes: one if its repository is registered, none otherwise.\<close>

definition pullOf :: "Trigger \<Rightarrow> string \<Rightarrow> (Repo \<times> string) list" where
  "pullOf t repoID =
     (case gitRepos t repoID of None \<Rightarrow> [] | Some repo \<Rightarrow> [(repo, GetClonedBranch repo)])"

text \<open>
  The log entry of \<open>checkCandidates\<close> for a failed group, the state after a
  group (with that entry), and the error of a group as a list.
\<close>

definition groupLog :: "string \<Rightarrow> error \<Rightarrow> event" where
  "groupLog repoID e = EvLogError (''failed while checking applications in repo '' @ repoID) e"

definition afterGroup :: "Trigger \<Rightarrow> world \<Rightarrow> string \<Rightarrow> candidate list \<Rightarrow> state \<Rightarrow> state" where
  "afterGroup t w repoID cs s =
     (case checkRepoCandidates t w repoID cs s of
        (Some e, s1) \<Rightarrow> emit (groupLog repoID e) s1
      | (None, s1) \<Rightarrow> s1)"

definition groupError :: "Trigger \<Rightarrow> world \<Rightarrow> string \<Rightarrow> candidate list \<Rightarrow> state \<Rightarrow> error list" where
  "groupError t w repoID cs s =
     (case fst (checkRepoCandidates t w repoID cs s) of Some e \<Rightarrow> [e] | None \<Rightarrow> [])"

section \<open>The effects of a group and of a batch, in order\<close>

text \<open>
  What the evaluation of a group has to look like in the trace, said without the
  code: the configuration a read of the file yields, and the effects of one
  candidate, read off the front of a list of effects.
\<close>

definition loadedConfig ::
  "world \<Rightarrow> Application \<Rightarrow> error + Config \<Rightarrow> GenericDeploymentSpec option" where
  "loadedConfig w app r =
     (case r of
        Inl err \<Rightarrow> None
      | Inr cfg \<Rightarrow>
          (case ToApplicationKind w (cfgKind cfg) of
             (k, ok) \<Rightarrow>
               if ok \<and> k = appKind app
               then (case GetGenericDeployment w cfg of
                       (spec, ok2) \<Rightarrow> if ok2 then Some spec else None)
               else None))"

definition failureSegment ::
  "Application \<Rightarrow> string \<Rightarrow> error \<Rightarrow> Commit \<Rightarrow> event list \<Rightarrow> event list option" where
  "failureSegment app msg err h es =
     (case es of
        n # l # rest \<Rightarrow>
          if n = failedEvent app msg h \<and> l = EvLogError msg err then Some rest else None
      | _ \<Rightarrow> None)"

definition notifySegment ::
  "world \<Rightarrow> GenericDeploymentSpec \<Rightarrow> Deployment \<Rightarrow> event list \<Rightarrow> event list option" where
  "notifySegment w cfg d es =
     (case es of
        EvEnvGet i re # es1 \<Rightarrow>
          if i = deploymentEnvId d
          then (case re of
                  Inl err \<Rightarrow> Some es1
                | Inr env \<Rightarrow>
                    (case es1 of
                       EvNotify n # es2 \<Rightarrow>
                         if n = \<lparr>Type = EVENT_DEPLOYMENT_TRIGGERED,
                                 Metadata = NotificationEventDeploymentTriggered d (envName env)
                                   (case DeploymentNotification cfg of
                                      Some dn \<Rightarrow> FindSlackAccounts w dn EVENT_DEPLOYMENT_TRIGGERED
                                    | None \<Rightarrow> [])\<rparr>
                         then Some es2 else None
                     | _ \<Rightarrow> None))
          else None
      | _ \<Rightarrow> None)"

definition reportSegment :: "candidate \<Rightarrow> Deployment \<Rightarrow> event list \<Rightarrow> event list option" where
  "reportSegment c d es =
     (if kind c = commandCandidate
      then (case es of
              EvReport cmd status md rr # es1 \<Rightarrow>
                if cmd = command c \<and> status = COMMAND_SUCCEEDED
                   \<and> md = [(triggeredDeploymentIDKey, deploymentId d)]
                then (case rr of
                        None \<Rightarrow> Some es1
                      | Some err \<Rightarrow>
                          (case es1 of
                             EvLogError m e # es2 \<Rightarrow>
                               if m = ''failed to report command status'' \<and> e = err
                               then Some es2 else None
                           | _ \<Rightarrow> None))
                else None
            | _ \<Rightarrow> None)
      else Some es)"

definition createdSegment ::
  "world \<Rightarrow> Commit \<Rightarrow> GenericDeploymentSpec \<Rightarrow> candidate \<Rightarrow> Deployment \<Rightarrow> event list
     \<Rightarrow> event list option" where
  "createdSegment w h cfg c d es =
     (case es of
        EvPut a hh # es1 \<Rightarrow>
          if a = appId (application c) \<and> hh = Hash h
          then (case notifySegment w cfg d es1 of
                  None \<Rightarrow> None
                | Some es2 \<Rightarrow> reportSegment c d es2)
          else None
      | _ \<Rightarrow> None)"

definition triggerSegment ::
  "world \<Rightarrow> string \<Rightarrow> Commit \<Rightarrow> GenericDeploymentSpec \<Rightarrow> candidate \<Rightarrow> event list
     \<Rightarrow> event list option" where
  "triggerSegment w b h cfg c es =
     (case es of
        EvTriggerDeployment app cfg' b' h' commander strategy r # es1 \<Rightarrow>
          if app = application c \<and> cfg' = cfg \<and> b' = b \<and> h' = h
          then (case r of
                  Inl err \<Rightarrow>
                    failureSegment (application c) (triggerFailedMsg (application c) err) err h es1
                | Inr d \<Rightarrow> createdSegment w h cfg c d es1)
          else None
      | _ \<Rightarrow> None)"

definition determineSegment ::
  "world \<Rightarrow> string \<Rightarrow> Commit \<Rightarrow> determiners \<Rightarrow> GenericDeploymentSpec \<Rightarrow> candidate \<Rightarrow> event list
     \<Rightarrow> event list option" where
  "determineSegment w b h ds cfg c es =
     (case es of
        EvShouldTrigger ds' k app cfg' r # es1 \<Rightarrow>
          if ds' = ds \<and> k = kind c \<and> app = application c \<and> cfg' = cfg
          then (case r of
                  Inl err \<Rightarrow>
                    failureSegment (application c) (determineFailedMsg (application c) err) err h es1
                | Inr yes \<Rightarrow>
                    if yes then triggerSegment w b h cfg c es1
                    else (case es1 of
                            EvPut a hh # rest \<Rightarrow>
                              if a = appId (application c) \<and> hh = Hash h then Some rest else None
                          | _ \<Rightarrow> None))
          else None
      | _ \<Rightarrow> None)"

definition candidateSegment ::
  "world \<Rightarrow> Repo \<Rightarrow> string \<Rightarrow> Commit \<Rightarrow> determiners \<Rightarrow> candidate \<Rightarrow> event list
     \<Rightarrow> event list option" where
  "candidateSegment w g b h ds c es =
     (case es of
        EvLoadFromYAML p r # es1 \<Rightarrow>
          if p = absPath w g (application c)
          then (case loadedConfig w (application c) r of
                  None \<Rightarrow>
                    (case es1 of
                       EvLogError m err # rest \<Rightarrow>
                         if m = ''failed to load application config file'' then Some rest else None
                     | _ \<Rightarrow> None)
                | Some cfg \<Rightarrow> determineSegment w b h ds cfg c es1)
          else None
      | _ \<Rightarrow> None)"

fun candidatesSegment ::
  "world \<Rightarrow> Repo \<Rightarrow> string \<Rightarrow> Commit \<Rightarrow> determiners \<Rightarrow> candidate list \<Rightarrow> event list
     \<Rightarrow> event list option" where
  "candidatesSegment w g b h ds [] es = Some es"
| "candidatesSegment w g b h ds (c # cs) es =
     (case candidateSegment w g b h ds c es of
        None \<Rightarrow> None
      | Some rest \<Rightarrow> candidatesSegment w g b h ds cs rest)"

definition evaluatedInOrder ::
  "world \<Rightarrow> Repo \<Rightarrow> string \<Rightarrow> Commit \<Rightarrow> determiners \<Rightarrow> candidate list \<Rightarrow> event list \<Rightarrow> bool" where
  "evaluatedInOrder w g b h ds cs es = (candidatesSegment w g b h ds cs es = Some [])"

text \<open>
  The effects of one group at the front of a list of effects, with the error of
  the group if it failed: the group of an unregistered repository leaves only
  its failure logs; otherwise the Pull comes first, then, if it succeeded, the
  read of the head commit, then, if that succeeded, the evaluation of the
  candidates. A failed group logs its error once or twice (the first entry is
  left out when the context is cancelled).
\<close>

definition failedGroupSegment :: "string \<Rightarrow> error \<Rightarrow> event list \<Rightarrow> event list option" where
  "failedGroupSegment repoID err es =
     (case es of
        EvLogError m e # es1 \<Rightarrow>
          if e = err \<and> m = ''failed to update git repository '' @ repoID @ '' to latest''
          then (case es1 of
                  EvLogError m2 e2 # rest \<Rightarrow>
                    if e2 = err \<and> m2 = ''failed while checking applications in repo '' @ repoID
                    then Some rest else None
                | _ \<Rightarrow> None)
          else if e = err \<and> m = ''failed while checking applications in repo '' @ repoID
          then Some es1 else None
      | _ \<Rightarrow> None)"

definition groupSegment ::
  "Trigger \<Rightarrow> world \<Rightarrow> string \<Rightarrow> candidate list \<Rightarrow> event list
     \<Rightarrow> (error list \<times> event list) option" where
  "groupSegment t w repoID g es =
     (case gitRepos t repoID of
        None \<Rightarrow>
          map_option (Pair [Errorf ''the repository was not registered in Piped configuration''])
            (failedGroupSegment repoID
               (Errorf ''the repository was not registered in Piped configuration'') es)
      | Some repo \<Rightarrow>
          (case es of
             EvPull repo' b pr # es1 \<Rightarrow>
               if repo' = repo \<and> b = GetClonedBranch repo
               then (case pr of
                       Some err \<Rightarrow> map_option (Pair [err]) (failedGroupSegment repoID err es1)
                     | None \<Rightarrow>
                         (case es1 of
                            EvGetLatestCommit repo'' lr # es2 \<Rightarrow>
                              if repo'' = repo
                              then (case lr of
                                      Inl err \<Rightarrow>
                                        map_option (Pair [err]) (failedGroupSegment repoID err es2)
                                    | Inr h \<Rightarrow>
                                        map_option (Pair [])
                                          (candidatesSegment w repo (GetClonedBranch repo) h
                                             (newDeterminers repo h) g es2))
                              else None
                          | _ \<Rightarrow> None))
               else None
           | _ \<Rightarrow> None))"

text \<open>
  The groups one after another: the errors of the groups that failed, in order,
  if the list of effects is exactly the effects of these groups.
\<close>

fun batchSegments ::
  "Trigger \<Rightarrow> world \<Rightarrow> (string \<times> candidate list) list \<Rightarrow> event list \<Rightarrow> error list option" where
  "batchSegments t w [] es = (if es = [] then Some [] else None)"
| "batchSegments t w ((repoID, g) # rest) es =
     (case groupSegment t w repoID g es of
        None \<Rightarrow> None
      | Some (errs, es1) \<Rightarrow>
          (case batchSegments t w rest es1 of
             None \<Rightarrow> None
           | Some errs' \<Rightarrow> Some (errs @ errs')))"

text \<open>The errors of the groups that fail, in the order the groups are visited.\<close>

fun groupFailures ::
  "Trigger \<Rightarrow> world \<Rightarrow> (string \<times> candidate list) list \<Rightarrow> state \<Rightarrow> error list" where
  "groupFailures t w [] s = []"
| "groupFailures t w ((repoID, g) # rest) s =
     groupError t w repoID g s @ groupFailures t w rest (afterGroup t w repoID g s)"

section \<open>A concrete trigger, to run the code on\<close>

text \<open>
  Two applications in two repositories, both out of sync, a sync command for
  the first, and a world in which every collaborator succeeds and every
  determiner says yes.
\<close>

definition app1 :: Application where
  "app1 = \<lparr>appId = ''app-1'', appName = ''DemoApp'', appKind = 0, appEnvId = ''env-1'',
            GitPath = \<lparr>RepoId = ''repo-1'', Path = ''demo'', ConfigPath = []\<rparr>,
            SyncStatus = OUT_OF_SYNC\<rparr>"

definition app2 :: Application where
  "app2 = \<lparr>appId = ''app-2'', appName = ''Other'', appKind = 0, appEnvId = ''env-1'',
            GitPath = \<lparr>RepoId = ''repo-2'', Path = ''other'', ConfigPath = []\<rparr>,
            SyncStatus = OUT_OF_SYNC\<rparr>"

definition repo1 :: Repo where
  "repo1 = \<lparr>GetPath = ''/r1'', GetClonedBranch = ''main''\<rparr>"

definition repo2 :: Repo where
  "repo2 = \<lparr>GetPath = ''/r2'', GetClonedBranch = ''main''\<rparr>"

definition head1 :: Commit where
  "head1 = \<lparr>Hash = ''H1'', Message = ''fix''\<rparr>"

definition spec1 :: GenericDeploymentSpec where
  "spec1 = \<lparr>DeploymentNotification = None\<rparr>"

definition cfg1 :: Config where
  "cfg1 = \<lparr>cfgKind = ''KubernetesApp'', cfgSpec = spec1\<rparr>"

definition dep1 :: Deployment where
  "dep1 = \<lparr>deploymentId = ''d-42'', deploymentEnvId = ''env-1''\<rparr>"

definition cmd1 :: ReportableCommand where
  "cmd1 = \<lparr>cmdId = ''c-1'', Commander = ''user-1'',
            GetSyncApplication = Some \<lparr>ApplicationId = ''app-1'', cmdSyncStrategy = OtherSyncStrategy 1\<rparr>\<rparr>"

definition trigger1 :: Trigger where
  "trigger1 = \<lparr>appLister = \<lparr>lister_Get = (\<lambda>i. if i = ''app-1'' then Some app1
                                           else if i = ''app-2'' then Some app2 else None),
                              lister_List = [app1, app2]\<rparr>,
                ListApplicationCommands = [cmd1],
                gitRepos = (\<lambda>r. if r = ''repo-1'' then Some repo1
                                 else if r = ''repo-2'' then Some repo2 else None)\<rparr>"

definition world1 :: world where
  "world1 = \<lparr>Pull = (\<lambda>s repo b. None),
              GetLatestCommit = (\<lambda>s repo. Inr head1),
              LoadFromYAML = (\<lambda>s p. Inr cfg1),
              ShouldTrigger = (\<lambda>s ds k app cfg. (Inr True, commitStore s)),
              triggerDeployment = (\<lambda>s app cfg b h commander strategy. Inr dep1),
              EnvGet = (\<lambda>s i. Inr \<lparr>envName = ''prod''\<rparr>),
              Report = (\<lambda>s cmd status md. None),
              ctxErr = (\<lambda>s. None),
              GetDeploymentConfigFilePath = (\<lambda>p. Path p @ ''/app.yaml''),
              Join = (\<lambda>a b. a @ ''/'' @ b),
              ToApplicationKind = (\<lambda>k. (0, k = ''KubernetesApp'')),
              GetGenericDeployment = (\<lambda>c. (cfgSpec c, True)),
              FindSlackAccounts = (\<lambda>n e. []),
              KindString = (\<lambda>k. if k = 0 then ''KUBERNETES'' else ''OTHER''),
              rangePick = (\<lambda>ks. 0)\<rparr>"

definition state0 :: state where
  "state0 = \<lparr>commitStore = Map.empty, trace = []\<rparr>"

text \<open>Candidates for these applications.\<close>

definition commit1 :: candidate where
  "commit1 = \<lparr>application = app1, kind = commitCandidate, command = noCommand\<rparr>"

definition commit2 :: candidate where
  "commit2 = \<lparr>application = app2, kind = commitCandidate, command = noCommand\<rparr>"

definition command1 :: candidate where
  "command1 = \<lparr>application = app1, kind = commandCandidate, command = cmd1\<rparr>"


text \<open>The same trigger with no repository cloned.\<close>

definition triggerNoRepos :: Trigger where
  "triggerNoRepos = trigger1\<lparr>gitRepos := Map.empty\<rparr>"

text \<open>Worlds in which one collaborator fails.\<close>

definition worldCreateFails :: world where
  "worldCreateFails =
     world1\<lparr>triggerDeployment := (\<lambda>s app cfg b h commander strategy. Inl (Errorf ''unavailable''))\<rparr>"

definition worldDetermineFails :: world where
  "worldDetermineFails =
     world1\<lparr>ShouldTrigger := (\<lambda>s ds k app cfg.
        (if k = commitCandidate then Inl (Errorf ''boom'') else Inr True, commitStore s))\<rparr>"

definition worldNoConfig :: world where
  "worldNoConfig = world1\<lparr>LoadFromYAML := (\<lambda>s p. Inl (NotExist ''no such file''))\<rparr>"

definition worldUnreadable :: world where
  "worldUnreadable = world1\<lparr>LoadFromYAML := (\<lambda>s p. Inl (Errorf ''yaml: did not find expected key''))\<rparr>"

definition worldOtherKind :: world where
  "worldOtherKind = world1\<lparr>ToApplicationKind := (\<lambda>k. (1, True))\<rparr>"

definition worldNoEnvironment :: world where
  "worldNoEnvironment = world1\<lparr>EnvGet := (\<lambda>s i. Inl (Errorf ''not found''))\<rparr>"

definition worldReportFails :: world where
  "worldReportFails = world1\<lparr>Report := (\<lambda>s cmd status md. Some (Errorf ''lost''))\<rparr>"

definition worldPullFails :: world where
  "worldPullFails =
     world1\<lparr>Pull := (\<lambda>s repo b. if repo = repo1 then Some (Errorf ''network'') else None)\<rparr>"

definition worldAllPullsFail :: world where
  "worldAllPullsFail =
     world1\<lparr>Pull := (\<lambda>s repo b. Some (Errorf (''pull of '' @ GetPath repo @ '' failed'')))\<rparr>"

section \<open>Properties\<close>

subsection \<open>Growth of the trace\<close>

lemma grows_refl: "grows s s"
  by (simp add: grows_def)

lemma grows_trans: "grows s s' \<Longrightarrow> grows s' s'' \<Longrightarrow> grows s s''"
  by (auto simp: grows_def)

lemma grows_emit: "grows s s' \<Longrightarrow> grows s (emit e s')"
  by (auto simp: grows_def emit_def prefix_def)

lemma grows_store: "grows s s' \<Longrightarrow> grows s (s'\<lparr>commitStore := m\<rparr>)"
  by (simp add: grows_def)

lemma grows_trace: "grows s s' \<Longrightarrow> trace s' = trace s @ emitted s s'"
  by (auto simp: grows_def emitted_def prefix_def)

lemma emitted_refl: "emitted s s = []"
  by (simp add: emitted_def)

lemma emitted_trans:
  "grows s s' \<Longrightarrow> grows s' s'' \<Longrightarrow> emitted s s'' = emitted s s' @ emitted s' s''"
  by (auto simp: grows_def emitted_def prefix_def)

lemma emitted_emit: "grows s s' \<Longrightarrow> emitted s (emit e s') = emitted s s' @ [e]"
  by (auto simp: grows_def emitted_def emit_def prefix_def)

lemma emitted_store: "emitted s (s'\<lparr>commitStore := m\<rparr>) = emitted s s'"
  by (simp add: emitted_def)

lemma grows_Put: "grows s s' \<Longrightarrow> grows s (Put a h s')"
  by (simp add: Put_def grows_emit grows_store)

lemma emitted_Put: "grows s s' \<Longrightarrow> emitted s (Put a h s') = emitted s s' @ [EvPut a h]"
  by (simp add: Put_def emitted_emit grows_store emitted_store)

lemma commitStore_emit: "commitStore (emit e s) = commitStore s"
  by (simp add: emit_def)

lemma commitStore_Put: "commitStore (Put a h s) = (commitStore s)(a \<mapsto> h)"
  by (simp add: Put_def emit_def)

subsection \<open>Projections and append\<close>

lemma loads_append: "loads (xs @ ys) = loads xs @ loads ys"
  by (induction xs rule: loads.induct) auto

lemma pulls_append: "pulls (xs @ ys) = pulls xs @ pulls ys"
  by (induction xs rule: pulls.induct) auto

lemma latestCommits_append: "latestCommits (xs @ ys) = latestCommits xs @ latestCommits ys"
  by (induction xs rule: latestCommits.induct) auto

lemma notifications_append: "notifications (xs @ ys) = notifications xs @ notifications ys"
  by (induction xs rule: notifications.induct) auto

lemma puts_append: "puts (xs @ ys) = puts xs @ puts ys"
  by (induction xs rule: puts.induct) auto

lemma triggerCalls_append: "triggerCalls (xs @ ys) = triggerCalls xs @ triggerCalls ys"
  by (induction xs rule: triggerCalls.induct) auto

lemma reports_append: "reports (xs @ ys) = reports xs @ reports ys"
  by (induction xs rule: reports.induct) auto

lemma kindsProcessed_append: "kindsProcessed (xs @ ys) = kindsProcessed xs @ kindsProcessed ys"
  by (induction xs rule: kindsProcessed.induct) auto

lemma groupErrors_append: "groupErrors (xs @ ys) = groupErrors xs @ groupErrors ys"
  by (induction xs rule: groupErrors.induct) auto

lemma failedCalls_append: "failedCalls (xs @ ys) = failedCalls xs + failedCalls ys"
  by (induction xs rule: failedCalls.induct) auto

lemma failuresReported_append:
  "failuresReported h xs \<Longrightarrow> failuresReported h ys \<Longrightarrow> failuresReported h (xs @ ys)"
  by (induction h xs rule: failuresReported.induct) (auto split: list.splits)

lemmas proj_append = loads_append pulls_append latestCommits_append notifications_append
  puts_append triggerCalls_append reports_append kindsProcessed_append groupErrors_append
  failedCalls_append

subsection \<open>One candidate\<close>

lemma load_snd:
  "snd (loadDeploymentConfiguration w p app s) =
     emit (EvLoadFromYAML (Join w p (GetDeploymentConfigFilePath w (GitPath app)))
            (LoadFromYAML w s (Join w p (GetDeploymentConfigFilePath w (GitPath app))))) s"
  by (simp add: loadDeploymentConfiguration_def Let_def split: sum.splits prod.splits)

lemma load_state:
  "loadDeploymentConfiguration w (GetPath g) app s = (r, s1) \<Longrightarrow>
     s1 = emit (EvLoadFromYAML (absPath w g app) (LoadFromYAML w s (absPath w g app))) s"
  using load_snd[of w "GetPath g" app s] by (simp add: absPath_def)

lemma should_state:
  "callShouldTrigger w ds k app cfg s1 = (r, s2) \<Longrightarrow>
     s2 = emit (EvShouldTrigger ds k app cfg r) (s1\<lparr>commitStore := snd (ShouldTrigger w s1 ds k app cfg)\<rparr>)"
  by (auto simp: callShouldTrigger_def split: prod.splits)

lemma trigger_state:
  "callTriggerDeployment w app cfg b h cmdr st s2 = (r, s3) \<Longrightarrow>
     s3 = emit (EvTriggerDeployment app cfg b h cmdr st r) s2"
  by (auto simp: callTriggerDeployment_def Let_def)

lemma report_state:
  "callReport w cmd status md s5 = (r, s6) \<Longrightarrow> s6 = emit (EvReport cmd status md r) s5"
  by (auto simp: callReport_def Let_def)

lemma emits_start: "emit e s = emits s [e] (commitStore s)"
  by (simp add: emits_def emit_def)

lemma emit_emits: "emit e (emits s es m) = emits s (es @ [e]) m"
  by (simp add: emits_def emit_def)

lemma store_emits: "(emits s es m)\<lparr>commitStore := m'\<rparr> = emits s es m'"
  by (simp add: emits_def)

lemma Put_emits: "Put a h (emits s es m) = emits s (es @ [EvPut a h]) (m(a \<mapsto> h))"
  by (simp add: emits_def Put_def emit_def)

lemma emitted_emits: "emitted s (emits s es m) = es"
  by (simp add: emits_def emitted_def)

lemma commitStore_emits: "commitStore (emits s es m) = m"
  by (simp add: emits_def)

lemma grows_emits: "grows s (emits s es m)"
  by (simp add: emits_def grows_def)

lemmas emits_simps = emit_emits store_emits Put_emits emitted_emits commitStore_emits

lemma load_emits:
  "loadDeploymentConfiguration w (GetPath g) app s = (r, s1) \<Longrightarrow>
     s1 = emits s [EvLoadFromYAML (absPath w g app) (LoadFromYAML w s (absPath w g app))] (commitStore s)"
  using load_state[of w g app s r s1] by (simp add: emits_start)

text \<open>The five ways one candidate can go, each with the effects it performs.\<close>

lemma cand_load_failed:
  assumes "loadDeploymentConfiguration w (GetPath g) (application c) s = (Inl err, s1)"
  shows "checkCandidate w g b h ds c s =
           emits s [EvLoadFromYAML (absPath w g (application c)) (LoadFromYAML w s (absPath w g (application c))),
                    EvLogError ''failed to load application config file'' err] (commitStore s)"
proof -
  have "checkCandidate w g b h ds c s = emit (EvLogError ''failed to load application config file'' err) s1"
    using assms by (simp add: checkCandidate_def)
  then show ?thesis by (simp add: load_emits[OF assms] emits_simps)
qed

lemma cand_determine_failed:
  assumes "loadDeploymentConfiguration w (GetPath g) (application c) s = (Inr cfg, s1)"
    and "callShouldTrigger w ds (kind c) (application c) cfg s1 = (Inl err, s2)"
  shows "checkCandidate w g b h ds c s =
           emits s [EvLoadFromYAML (absPath w g (application c)) (LoadFromYAML w s (absPath w g (application c))),
                    EvShouldTrigger ds (kind c) (application c) cfg (Inl err),
                    failedEvent (application c) (determineFailedMsg (application c) err) h,
                    EvLogError (determineFailedMsg (application c) err) err]
                 (snd (ShouldTrigger w s1 ds (kind c) (application c) cfg))"
proof -
  have "checkCandidate w g b h ds c s =
          emit (EvLogError (determineFailedMsg (application c) err) err)
            (emit (failedEvent (application c) (determineFailedMsg (application c) err) h) s2)"
    using assms by (simp add: checkCandidate_def Let_def notifyDeploymentTriggerFailed_def failedEvent_def)
  then show ?thesis
    by (simp add: should_state[OF assms(2)] load_emits[OF assms(1)] emits_simps)
qed

lemma cand_skipped:
  assumes "loadDeploymentConfiguration w (GetPath g) (application c) s = (Inr cfg, s1)"
    and "callShouldTrigger w ds (kind c) (application c) cfg s1 = (Inr False, s2)"
  shows "checkCandidate w g b h ds c s =
           emits s [EvLoadFromYAML (absPath w g (application c)) (LoadFromYAML w s (absPath w g (application c))),
                    EvShouldTrigger ds (kind c) (application c) cfg (Inr False),
                    EvPut (appId (application c)) (Hash h)]
                 ((snd (ShouldTrigger w s1 ds (kind c) (application c) cfg))
                    (appId (application c) \<mapsto> Hash h))"
proof -
  have "checkCandidate w g b h ds c s = Put (appId (application c)) (Hash h) s2"
    using assms by (simp add: checkCandidate_def Let_def)
  then show ?thesis
    by (simp add: should_state[OF assms(2)] load_emits[OF assms(1)] emits_simps)
qed

lemma cand_trigger_failed:
  assumes "loadDeploymentConfiguration w (GetPath g) (application c) s = (Inr cfg, s1)"
    and "callShouldTrigger w ds (kind c) (application c) cfg s1 = (Inr True, s2)"
    and "callTriggerDeployment w (application c) cfg b h [] SyncStrategy_AUTO s2 = (Inl err, s3)"
  shows "checkCandidate w g b h ds c s =
           emits s [EvLoadFromYAML (absPath w g (application c)) (LoadFromYAML w s (absPath w g (application c))),
                    EvShouldTrigger ds (kind c) (application c) cfg (Inr True),
                    EvTriggerDeployment (application c) cfg b h [] SyncStrategy_AUTO (Inl err),
                    failedEvent (application c) (triggerFailedMsg (application c) err) h,
                    EvLogError (triggerFailedMsg (application c) err) err]
                 (snd (ShouldTrigger w s1 ds (kind c) (application c) cfg))"
proof -
  have "checkCandidate w g b h ds c s =
          emit (EvLogError (triggerFailedMsg (application c) err) err)
            (emit (failedEvent (application c) (triggerFailedMsg (application c) err) h) s3)"
    using assms by (simp add: checkCandidate_def Let_def notifyDeploymentTriggerFailed_def failedEvent_def)
  then show ?thesis
    by (simp add: trigger_state[OF assms(3)] should_state[OF assms(2)] load_emits[OF assms(1)] emits_simps)
qed

lemma cand_triggered:
  assumes "loadDeploymentConfiguration w (GetPath g) (application c) s = (Inr cfg, s1)"
    and "callShouldTrigger w ds (kind c) (application c) cfg s1 = (Inr True, s2)"
    and "callTriggerDeployment w (application c) cfg b h [] SyncStrategy_AUTO s2 = (Inr d, s3)"
  shows "checkCandidate w g b h ds c s =
           emits s ([EvLoadFromYAML (absPath w g (application c)) (LoadFromYAML w s (absPath w g (application c))),
                    EvShouldTrigger ds (kind c) (application c) cfg (Inr True),
                    EvTriggerDeployment (application c) cfg b h [] SyncStrategy_AUTO (Inr d),
                    EvPut (appId (application c)) (Hash h)]
                    @ afterCreate w cfg d c (Put (appId (application c)) (Hash h) s3))
                 ((snd (ShouldTrigger w s1 ds (kind c) (application c) cfg))
                    (appId (application c) \<mapsto> Hash h))"
proof -
  let ?s4 = "Put (appId (application c)) (Hash h) s3"
  let ?s5 = "notifyDeploymentTriggered w cfg d ?s4"
  let ?md = "[(triggeredDeploymentIDKey, deploymentId d)]"
  have res: "checkCandidate w g b h ds c s =
          (if kind c = commandCandidate
           then (case callReport w (command c) COMMAND_SUCCEEDED ?md ?s5 of
                   (Some err, s6) \<Rightarrow> emit (EvLogError ''failed to report command status'' err) s6
                 | (None, s6) \<Rightarrow> s6)
           else ?s5)"
    using assms by (simp add: checkCandidate_def Let_def)
  have s3: "s3 = emits s [EvLoadFromYAML (absPath w g (application c)) (LoadFromYAML w s (absPath w g (application c))),
                    EvShouldTrigger ds (kind c) (application c) cfg (Inr True),
                    EvTriggerDeployment (application c) cfg b h [] SyncStrategy_AUTO (Inr d)]
                 (snd (ShouldTrigger w s1 ds (kind c) (application c) cfg))"
    by (simp add: trigger_state[OF assms(3)] should_state[OF assms(2)] load_emits[OF assms(1)] emits_simps)
  obtain es m where s4: "?s4 = emits s es m"
    and es: "es = [EvLoadFromYAML (absPath w g (application c)) (LoadFromYAML w s (absPath w g (application c))),
                    EvShouldTrigger ds (kind c) (application c) cfg (Inr True),
                    EvTriggerDeployment (application c) cfg b h [] SyncStrategy_AUTO (Inr d),
                    EvPut (appId (application c)) (Hash h)]"
    and m: "m = (snd (ShouldTrigger w s1 ds (kind c) (application c) cfg))(appId (application c) \<mapsto> Hash h)"
    by (simp add: s3 emits_simps)
  show ?thesis
    unfolding res es[symmetric] m[symmetric]
    by (simp add: s4 afterCreate_def notifyDeploymentTriggered_def callReport_def Let_def emits_simps
          split: sum.splits option.splits)
qed

lemma checkCandidate_cases:
  obtains
    (LoadFailed) err s1 where
      "loadDeploymentConfiguration w (GetPath g) (application c) s = (Inl err, s1)"
  | (DetermineFailed) cfg s1 err s2 where
      "loadDeploymentConfiguration w (GetPath g) (application c) s = (Inr cfg, s1)"
      "callShouldTrigger w ds (kind c) (application c) cfg s1 = (Inl err, s2)"
  | (Skipped) cfg s1 s2 where
      "loadDeploymentConfiguration w (GetPath g) (application c) s = (Inr cfg, s1)"
      "callShouldTrigger w ds (kind c) (application c) cfg s1 = (Inr False, s2)"
  | (TriggerFailed) cfg s1 s2 err s3 where
      "loadDeploymentConfiguration w (GetPath g) (application c) s = (Inr cfg, s1)"
      "callShouldTrigger w ds (kind c) (application c) cfg s1 = (Inr True, s2)"
      "callTriggerDeployment w (application c) cfg b h [] SyncStrategy_AUTO s2 = (Inl err, s3)"
  | (Triggered) cfg s1 s2 d s3 where
      "loadDeploymentConfiguration w (GetPath g) (application c) s = (Inr cfg, s1)"
      "callShouldTrigger w ds (kind c) (application c) cfg s1 = (Inr True, s2)"
      "callTriggerDeployment w (application c) cfg b h [] SyncStrategy_AUTO s2 = (Inr d, s3)"
proof -
  obtain r1 s1 where l: "loadDeploymentConfiguration w (GetPath g) (application c) s = (r1, s1)"
    by (cases "loadDeploymentConfiguration w (GetPath g) (application c) s")
  show ?thesis
  proof (cases r1)
    case (Inl err)
    with l LoadFailed show ?thesis by blast
  next
    case (Inr cfg)
    obtain r2 s2 where d: "callShouldTrigger w ds (kind c) (application c) cfg s1 = (r2, s2)"
      by (cases "callShouldTrigger w ds (kind c) (application c) cfg s1")
    show ?thesis
    proof (cases r2)
      case (Inl err)
      with l d \<open>r1 = Inr cfg\<close> DetermineFailed show ?thesis by blast
    next
      case r2: (Inr yes)
      show ?thesis
      proof (cases yes)
        case False
        then have "callShouldTrigger w ds (kind c) (application c) cfg s1 = (Inr False, s2)"
          using d r2 by simp
        with l \<open>r1 = Inr cfg\<close> Skipped show ?thesis by blast
      next
        case True
        then have d': "callShouldTrigger w ds (kind c) (application c) cfg s1 = (Inr True, s2)"
          using d r2 by simp
        obtain r3 s3 where
          t: "callTriggerDeployment w (application c) cfg b h [] SyncStrategy_AUTO s2 = (r3, s3)"
          by (cases "callTriggerDeployment w (application c) cfg b h [] SyncStrategy_AUTO s2")
        show ?thesis
        proof (cases r3)
          case (Inl err)
          with l d' t \<open>r1 = Inr cfg\<close> TriggerFailed show ?thesis by blast
        next
          case (Inr dep)
          with l d' t \<open>r1 = Inr cfg\<close> Triggered show ?thesis by blast
        qed
      qed
    qed
  qed
qed

lemmas cand_outcomes = cand_load_failed cand_determine_failed cand_skipped cand_trigger_failed
  cand_triggered

lemma afterCreate_proj:
  "loads (afterCreate w cfg d c s4) = []"
  "pulls (afterCreate w cfg d c s4) = []"
  "latestCommits (afterCreate w cfg d c s4) = []"
  "groupErrors (afterCreate w cfg d c s4) = []"
  "kindsProcessed (afterCreate w cfg d c s4) = []"
  "puts (afterCreate w cfg d c s4) = []"
  "triggerCalls (afterCreate w cfg d c s4) = []"
  "failedCalls (afterCreate w cfg d c s4) = 0"
  "failuresReported h (afterCreate w cfg d c s4)"
  by (simp_all add: afterCreate_def Let_def split: sum.splits option.splits)

lemma afterCreate_reports:
  "reports (afterCreate w cfg d c s4) =
     (if kind c = commandCandidate
      then [(command c, COMMAND_SUCCEEDED, [(triggeredDeploymentIDKey, deploymentId d)])] else [])"
  by (simp add: afterCreate_def Let_def proj_append split: sum.splits option.splits)

lemma checkCandidate_grows: "grows s (checkCandidate w g b h ds c s)"
  by (rule checkCandidate_cases[where w=w and g=g and c=c and s=s and ds=ds and b=b and h=h]) (simp_all add: cand_outcomes grows_emits)

lemma checkCandidate_loads:
  "loads (emitted s (checkCandidate w g b h ds c s)) = [absPath w g (application c)]"
  by (rule checkCandidate_cases[where w=w and g=g and c=c and s=s and ds=ds and b=b and h=h])
     (simp_all add: cand_outcomes emits_simps proj_append afterCreate_proj failedEvent_def)

lemma checkCandidate_pulls: "pulls (emitted s (checkCandidate w g b h ds c s)) = []"
  by (rule checkCandidate_cases[where w=w and g=g and c=c and s=s and ds=ds and b=b and h=h])
     (simp_all add: cand_outcomes emits_simps proj_append afterCreate_proj failedEvent_def)


lemma checkCandidate_groupErrors:
  "groupErrors (emitted s (checkCandidate w g b h ds c s)) = []"
  by (rule checkCandidate_cases[where w=w and g=g and c=c and s=s and ds=ds and b=b and h=h])
     (simp_all add: cand_outcomes emits_simps proj_append afterCreate_proj failedEvent_def
        determineFailedMsg_def triggerFailedMsg_def)

lemma checkCandidate_failuresReported:
  "failuresReported h (emitted s (checkCandidate w g b h ds c s))"
  by (rule checkCandidate_cases[where w=w and g=g and c=c and s=s and ds=ds and b=b and h=h])
     (simp_all add: cand_outcomes emits_simps afterCreate_proj)


lemma checkCandidate_reports_other:
  "kind c \<noteq> commandCandidate \<Longrightarrow> reports (emitted s (checkCandidate w g b h ds c s)) = []"
  by (rule checkCandidate_cases[where w=w and g=g and c=c and s=s and ds=ds and b=b and h=h])
     (simp_all add: cand_outcomes emits_simps proj_append afterCreate_reports failedEvent_def)

subsection \<open>The loop over a group\<close>

lemma checkLoop_grows: "grows s (checkLoop w g b h ds cs s)"
proof (induction cs arbitrary: s)
  case Nil
  show ?case by (simp add: grows_refl)
next
  case (Cons c cs)
  show ?case using grows_trans[OF checkCandidate_grows Cons.IH] by simp
qed

lemma checkLoop_emitted:
  "emitted s (checkLoop w g b h ds (c # cs) s) =
     emitted s (checkCandidate w g b h ds c s)
       @ emitted (checkCandidate w g b h ds c s) (checkLoop w g b h ds cs (checkCandidate w g b h ds c s))"
  using emitted_trans[OF checkCandidate_grows checkLoop_grows] by simp


lemma checkLoop_loads:
  "loads (emitted s (checkLoop w g b h ds cs s)) = map (\<lambda>c. absPath w g (application c)) cs"
  by (induction cs arbitrary: s)
     (simp_all add: emitted_refl checkLoop_emitted proj_append checkCandidate_loads del: checkLoop.simps(2))

lemma checkLoop_pulls: "pulls (emitted s (checkLoop w g b h ds cs s)) = []"
  by (induction cs arbitrary: s)
     (simp_all add: emitted_refl checkLoop_emitted proj_append checkCandidate_pulls del: checkLoop.simps(2))


lemma checkLoop_groupErrors: "groupErrors (emitted s (checkLoop w g b h ds cs s)) = []"
  by (induction cs arbitrary: s)
     (simp_all add: emitted_refl checkLoop_emitted proj_append checkCandidate_groupErrors del: checkLoop.simps(2))

lemma checkLoop_failuresReported: "failuresReported h (emitted s (checkLoop w g b h ds cs s))"
  by (induction cs arbitrary: s)
     (simp_all add: emitted_refl checkLoop_emitted failuresReported_append
        checkCandidate_failuresReported del: checkLoop.simps(2))


subsection \<open>One repository group\<close>

lemma emits_emits: "emits (emits s es m) es' m' = emits s (es @ es') m'"
  by (simp add: emits_def)

lemma emits_same: "emits s [] (commitStore s) = s"
  by (simp add: emits_def)

lemma update_emits:
  "updateRepoToLatest t w repoID s = (res, s1) \<Longrightarrow>
     \<exists>es. s1 = emits s es (commitStore s) \<and> loads es = [] \<and> notifications es = []
        \<and> puts es = [] \<and> triggerCalls es = [] \<and> reports es = [] \<and> groupErrors es = []
        \<and> kindsProcessed es = [] \<and> pulls es = pullOf t repoID
        \<and> length (latestCommits es) \<le> length (pulls es)
        \<and> failedCalls es = 0
        \<and> (\<forall>h. failuresReported h es)"
proof (cases "gitRepos t repoID")
  case None
  assume "updateRepoToLatest t w repoID s = (res, s1)"
  with None have "s1 = emits s [] (commitStore s)"
    by (simp add: updateRepoToLatest_def emits_same)
  with None show ?thesis by (auto simp: pullOf_def)
next
  case (Some repo)
  assume u: "updateRepoToLatest t w repoID s = (res, s1)"
  show ?thesis
  proof (cases "Pull w s repo (GetClonedBranch repo)")
    case (Some err)
    with u \<open>gitRepos t repoID = Some repo\<close>
    have "s1 = emits s [EvPull repo (GetClonedBranch repo) (Some err)] (commitStore s)"
      by (auto simp: updateRepoToLatest_def Let_def emits_start)
    with \<open>gitRepos t repoID = Some repo\<close> show ?thesis by (auto simp: pullOf_def)
  next
    case None
    let ?s1 = "emit (EvPull repo (GetClonedBranch repo) None) s"
    from u None \<open>gitRepos t repoID = Some repo\<close>
    have "s1 = emits s [EvPull repo (GetClonedBranch repo) None,
                 EvGetLatestCommit repo (GetLatestCommit w ?s1 repo)] (commitStore s)"
      by (auto simp: updateRepoToLatest_def Let_def emits_start emits_emits commitStore_emits
          split: sum.splits)
    with \<open>gitRepos t repoID = Some repo\<close> show ?thesis by (auto simp: pullOf_def)
  qed
qed

lemma repo_failed:
  "updateRepoToLatest t w repoID s = (Inl err, s1) \<Longrightarrow>
     checkRepoCandidates t w repoID cs s =
       (Some err,
        if ctxErr w s1 \<noteq> Some Canceled
        then emit (EvLogError (''failed to update git repository '' @ repoID @ '' to latest'') err) s1
        else s1)"
  by (simp add: checkRepoCandidates_def)

lemma repo_updated:
  "updateRepoToLatest t w repoID s = (Inr (g, b, h), s1) \<Longrightarrow>
     checkRepoCandidates t w repoID cs s =
       (None, checkLoop w g b h (newDeterminers g h) cs s1)"
  by (simp add: checkRepoCandidates_def)

lemma repo_cases:
  obtains
    (Failed) err s1 where "updateRepoToLatest t w repoID s = (Inl err, s1)"
  | (Updated) g b h s1 where "updateRepoToLatest t w repoID s = (Inr (g, b, h), s1)"
proof -
  obtain r s1 where u: "updateRepoToLatest t w repoID s = (r, s1)"
    by (cases "updateRepoToLatest t w repoID s")
  show ?thesis
  proof (cases r)
    case (Inl err)
    with u Failed show ?thesis by blast
  next
    case (Inr x)
    obtain g b h where "x = (g, b, h)" by (cases x)
    with u Inr Updated show ?thesis by blast
  qed
qed

lemma repo_grows: "grows s (snd (checkRepoCandidates t w repoID cs s))"
proof (rule repo_cases[where t=t and w=w and repoID=repoID and s=s])
  fix err s1 assume u: "updateRepoToLatest t w repoID s = (Inl err, s1)"
  from update_emits[OF u] have "grows s s1" by (auto simp: grows_emits)
  then show ?thesis by (simp add: repo_failed[OF u] grows_emit)
next
  fix g b h s1 assume u: "updateRepoToLatest t w repoID s = (Inr (g, b, h), s1)"
  from update_emits[OF u] have "grows s s1" by (auto simp: grows_emits)
  then show ?thesis using grows_trans[OF _ checkLoop_grows] by (simp add: repo_updated[OF u])
qed

lemma repo_pulls:
  "pulls (emitted s (snd (checkRepoCandidates t w repoID cs s))) = pullOf t repoID"
proof (rule repo_cases[where t=t and w=w and repoID=repoID and s=s])
  fix err s1 assume u: "updateRepoToLatest t w repoID s = (Inl err, s1)"
  from update_emits[OF u] show ?thesis
    by (auto simp: repo_failed[OF u] emits_simps proj_append)
next
  fix g b h s1 assume u: "updateRepoToLatest t w repoID s = (Inr (g, b, h), s1)"
  from update_emits[OF u] obtain es where s1: "s1 = emits s es (commitStore s)"
    and p: "pulls es = pullOf t repoID" by blast
  have g: "grows s s1" by (simp add: s1 grows_emits)
  show ?thesis
    by (simp add: repo_updated[OF u] emitted_trans[OF g checkLoop_grows] proj_append
          checkLoop_pulls) (simp add: s1 emits_simps p)
qed


lemma repo_groupErrors:
  "groupErrors (emitted s (snd (checkRepoCandidates t w repoID cs s))) = []"
proof (rule repo_cases[where t=t and w=w and repoID=repoID and s=s])
  fix err s1 assume u: "updateRepoToLatest t w repoID s = (Inl err, s1)"
  from update_emits[OF u] show ?thesis
    by (auto simp: repo_failed[OF u] emits_simps proj_append)
next
  fix g b h s1 assume u: "updateRepoToLatest t w repoID s = (Inr (g, b, h), s1)"
  from update_emits[OF u] obtain es where s1: "s1 = emits s es (commitStore s)"
    and p: "groupErrors es = []" by blast
  have g: "grows s s1" by (simp add: s1 grows_emits)
  show ?thesis
    by (simp add: repo_updated[OF u] emitted_trans[OF g checkLoop_grows] proj_append
          checkLoop_groupErrors) (simp add: s1 emits_simps p)
qed

subsection \<open>A batch\<close>

lemma checkGroups_Cons:
  "checkGroups t w ((repoID, cs) # rest) err s =
     checkGroups t w rest
       (case fst (checkRepoCandidates t w repoID cs s) of Some e \<Rightarrow> Some e | None \<Rightarrow> err)
       (afterGroup t w repoID cs s)"
  by (simp add: afterGroup_def groupLog_def split: prod.splits option.splits)

lemma afterGroup_grows: "grows s (afterGroup t w repoID cs s)"
  using repo_grows[of s t w repoID cs]
  by (auto simp: afterGroup_def grows_emit split: prod.splits option.splits)

lemma afterGroup_emitted:
  "emitted s (afterGroup t w repoID cs s) =
     emitted s (snd (checkRepoCandidates t w repoID cs s))
       @ map (groupLog repoID) (groupError t w repoID cs s)"
  using repo_grows[of s t w repoID cs]
  by (auto simp: afterGroup_def groupError_def emitted_emit split: prod.splits option.splits)

lemma groupLog_proj:
  "pulls (map (groupLog r) es) = []"
  "latestCommits (map (groupLog r) es) = []"
  "groupErrors (map (groupLog r) es) = es"
  by (induction es) (simp_all add: groupLog_def)

lemma afterGroup_pulls: "pulls (emitted s (afterGroup t w repoID cs s)) = pullOf t repoID"
  by (simp add: afterGroup_emitted proj_append repo_pulls groupLog_proj)


lemma afterGroup_groupErrors:
  "groupErrors (emitted s (afterGroup t w repoID cs s)) = groupError t w repoID cs s"
  by (simp add: afterGroup_emitted proj_append repo_groupErrors groupLog_proj)

lemma checkGroups_grows: "grows s (snd (checkGroups t w gs err s))"
proof (induction gs arbitrary: err s)
  case Nil
  show ?case by (simp add: grows_refl)
next
  case (Cons g gs)
  obtain repoID cs where g: "g = (repoID, cs)" by (cases g)
  show ?case
    unfolding g checkGroups_Cons by (rule grows_trans[OF afterGroup_grows Cons.IH])
qed

lemma checkGroups_emitted:
  "emitted s (snd (checkGroups t w ((repoID, cs) # rest) err s)) =
     emitted s (afterGroup t w repoID cs s)
       @ emitted (afterGroup t w repoID cs s)
           (snd (checkGroups t w rest
              (case fst (checkRepoCandidates t w repoID cs s) of Some e \<Rightarrow> Some e | None \<Rightarrow> err)
              (afterGroup t w repoID cs s)))"
  unfolding checkGroups_Cons by (rule emitted_trans[OF afterGroup_grows checkGroups_grows])

lemma checkGroups_pulls:
  "pulls (emitted s (snd (checkGroups t w gs err s))) = concat (map (\<lambda>g. pullOf t (fst g)) gs)"
proof (induction gs arbitrary: err s)
  case Nil
  show ?case by (simp add: emitted_refl)
next
  case (Cons g gs)
  obtain repoID cs where g: "g = (repoID, cs)" by (cases g)
  show ?case
    unfolding g checkGroups_emitted by (simp add: proj_append afterGroup_pulls Cons.IH)
qed


lemma checkGroups_result:
  "fst (checkGroups t w gs err s) =
     (case lastError (groupErrors (emitted s (snd (checkGroups t w gs err s)))) of
        None \<Rightarrow> err | Some e \<Rightarrow> Some e)"
proof (induction gs arbitrary: err s)
  case Nil
  show ?case by (simp add: emitted_refl lastError_def)
next
  case (Cons g gs)
  obtain repoID cs where g: "g = (repoID, cs)" by (cases g)
  show ?case
    unfolding g checkGroups_emitted
    by (subst checkGroups_Cons, subst Cons.IH)
       (simp add: proj_append afterGroup_groupErrors groupError_def lastError_def
          split: option.splits)
qed

subsection \<open>Grouping and the order of the range\<close>

lemma update_absent: "map_of al k = None \<Longrightarrow> AList.update k v al = al @ [(k, v)]"
  by (induction al) (auto split: if_splits)

lemma groupByRepo_Cons:
  "groupByRepo (c # cs) csm =
     groupByRepo cs
       (AList.update (repoIdOf c)
          ((case map_of csm (repoIdOf c) of None \<Rightarrow> [] | Some g \<Rightarrow> g) @ [c]) csm)"
  by (simp add: Let_def update_absent split: option.splits)

lemma groupByRepo_distinct:
  "distinct (map fst csm) \<Longrightarrow> distinct (map fst (groupByRepo cs csm))"
proof (induction cs arbitrary: csm)
  case Nil
  then show ?case by simp
next
  case (Cons c cs)
  show ?case
    unfolding groupByRepo_Cons by (rule Cons.IH) (rule distinct_update[OF Cons.prems])
qed

lemma groupByRepo_keys:
  "set (map fst (groupByRepo cs csm)) = set (map fst csm) \<union> repoIdOf ` set cs"
proof (induction cs arbitrary: csm)
  case Nil
  show ?case by simp
next
  case (Cons c cs)
  show ?case
    unfolding groupByRepo_Cons Cons.IH by (auto simp: update_keys)
qed

lemma groupByRepo_lookup:
  "map_of (groupByRepo cs csm) r =
     (case map_of csm r of
        Some g \<Rightarrow> Some (g @ filter (\<lambda>c. repoIdOf c = r) cs)
      | None \<Rightarrow> if r \<in> repoIdOf ` set cs then Some (filter (\<lambda>c. repoIdOf c = r) cs) else None)"
proof (induction cs arbitrary: csm)
  case Nil
  show ?case by (simp split: option.splits)
next
  case (Cons c cs)
  show ?case
    unfolding groupByRepo_Cons Cons.IH
    by (auto simp: update_conv' split: option.splits)
qed

lemma groupByRepo_groups:
  assumes "(r, g) \<in> set (groupByRepo cs [])"
  shows "g = filter (\<lambda>c. repoIdOf c = r) cs" and "r \<in> repoIdOf ` set cs"
proof -
  have "distinct (map fst (groupByRepo cs []))" by (rule groupByRepo_distinct) simp
  with assms have "map_of (groupByRepo cs []) r = Some g" by simp
  then show "g = filter (\<lambda>c. repoIdOf c = r) cs" and "r \<in> repoIdOf ` set cs"
    by (auto simp: groupByRepo_lookup split: if_splits)
qed

lemma mapRange_mset: "mset (mapRange pick m) = mset m"
proof (induction pick m rule: mapRange.induct)
  case (1 pick)
  then show ?case by simp
next
  case (2 pick e es)
  let ?m = "e # es"
  let ?i = "pick (map fst ?m) mod length ?m"
  have i: "?i < length ?m" by simp
  have "mset ?m = mset (take ?i ?m @ ?m ! ?i # drop (Suc ?i) ?m)"
    using id_take_nth_drop[OF i] by metis
  then show ?case using 2 by (simp add: Let_def del: take_Suc_Cons drop_Suc_Cons nth_Cons_Suc)
qed

lemma mapRange_set: "set (mapRange pick m) = set m"
  using mapRange_mset[of pick m] by (rule mset_eq_setD)

lemma mapRange_keys: "mset (map fst (mapRange pick m)) = mset (map fst m)"
  using mapRange_mset[of pick m] by (metis mset_map)

lemma mapRange_distinct: "distinct (map fst (mapRange pick m)) = distinct (map fst m)"
  using mapRange_keys[of pick m] by (rule mset_eq_imp_distinct_iff)



lemmas concrete_defs = app1_def app2_def repo1_def repo2_def head1_def spec1_def cfg1_def dep1_def
  cmd1_def trigger1_def world1_def state0_def commit1_def command1_def worldCreateFails_def

lemmas run_defs = checkRepoCandidates_def updateRepoToLatest_def checkCandidate_def
  loadDeploymentConfiguration_def callShouldTrigger_def callTriggerDeployment_def callReport_def
  notifyDeploymentTriggered_def notifyDeploymentTriggerFailed_def Put_def emit_def Let_def
  newDeterminers_def

subsection \<open>The effects of a group and of a batch, in order\<close>

lemma load_loadedConfig:
  "loadDeploymentConfiguration w (GetPath g) app s = (r, s1) \<Longrightarrow>
     loadedConfig w app (LoadFromYAML w s (absPath w g app))
       = (case r of Inl err \<Rightarrow> None | Inr cfg \<Rightarrow> Some cfg)"
  by (auto simp: loadDeploymentConfiguration_def loadedConfig_def absPath_def Let_def
        split: sum.splits prod.splits if_splits)

lemma afterCreate_segment:
  "(case notifySegment w cfg d (afterCreate w cfg d c s4 @ rest) of
      None \<Rightarrow> None | Some es2 \<Rightarrow> reportSegment c d es2) = Some rest"
  by (simp add: afterCreate_def notifySegment_def reportSegment_def Let_def
        split: sum.splits option.splits)

lemma candidate_segment:
  "candidateSegment w g b h ds c (emitted s (checkCandidate w g b h ds c s) @ rest) = Some rest"
proof (rule checkCandidate_cases[where w=w and g=g and c=c and s=s and ds=ds and b=b and h=h])
  fix err s1
  assume l: "loadDeploymentConfiguration w (GetPath g) (application c) s = (Inl err, s1)"
  show ?thesis
    using load_loadedConfig[OF l]
    by (simp add: cand_load_failed[OF l] emits_simps candidateSegment_def)
next
  fix cfg s1 err s2
  assume l: "loadDeploymentConfiguration w (GetPath g) (application c) s = (Inr cfg, s1)"
    and d: "callShouldTrigger w ds (kind c) (application c) cfg s1 = (Inl err, s2)"
  show ?thesis
    using load_loadedConfig[OF l]
    by (simp add: cand_determine_failed[OF l d] emits_simps candidateSegment_def
          determineSegment_def failureSegment_def)
next
  fix cfg s1 s2
  assume l: "loadDeploymentConfiguration w (GetPath g) (application c) s = (Inr cfg, s1)"
    and d: "callShouldTrigger w ds (kind c) (application c) cfg s1 = (Inr False, s2)"
  show ?thesis
    using load_loadedConfig[OF l]
    by (simp add: cand_skipped[OF l d] emits_simps candidateSegment_def determineSegment_def)
next
  fix cfg s1 s2 err s3
  assume l: "loadDeploymentConfiguration w (GetPath g) (application c) s = (Inr cfg, s1)"
    and d: "callShouldTrigger w ds (kind c) (application c) cfg s1 = (Inr True, s2)"
    and t: "callTriggerDeployment w (application c) cfg b h [] SyncStrategy_AUTO s2 = (Inl err, s3)"
  show ?thesis
    using load_loadedConfig[OF l]
    by (simp add: cand_trigger_failed[OF l d t] emits_simps candidateSegment_def
          determineSegment_def triggerSegment_def failureSegment_def)
next
  fix cfg s1 s2 dep s3
  assume l: "loadDeploymentConfiguration w (GetPath g) (application c) s = (Inr cfg, s1)"
    and d: "callShouldTrigger w ds (kind c) (application c) cfg s1 = (Inr True, s2)"
    and t: "callTriggerDeployment w (application c) cfg b h [] SyncStrategy_AUTO s2 = (Inr dep, s3)"
  show ?thesis
    using load_loadedConfig[OF l]
    by (simp add: cand_triggered[OF l d t] emits_simps candidateSegment_def
          determineSegment_def triggerSegment_def createdSegment_def afterCreate_segment)
qed

lemma candidates_segment:
  "candidatesSegment w g b h ds cs (emitted s (checkLoop w g b h ds cs s) @ rest) = Some rest"
proof (induction cs arbitrary: s)
  case Nil
  show ?case by (simp add: emitted_refl)
next
  case (Cons c cs)
  show ?case
    by (simp add: checkLoop_emitted candidate_segment Cons.IH del: checkLoop.simps(2))
qed

lemma checkLoop_evaluatedInOrder:
  "evaluatedInOrder w g b h ds cs (emitted s (checkLoop w g b h ds cs s))"
  using candidates_segment[of w g b h ds cs s "[]"] by (simp add: evaluatedInOrder_def)

lemma update_cases:
  obtains
    (Unregistered) "gitRepos t repoID = None"
      "updateRepoToLatest t w repoID s = (Inl notRegistered, s)"
  | (PullFailed) repo err where "gitRepos t repoID = Some repo"
      "updateRepoToLatest t w repoID s
         = (Inl err, emits s [EvPull repo (GetClonedBranch repo) (Some err)] (commitStore s))"
  | (CommitFailed) repo err where "gitRepos t repoID = Some repo"
      "updateRepoToLatest t w repoID s
         = (Inl err, emits s [EvPull repo (GetClonedBranch repo) None,
                              EvGetLatestCommit repo (Inl err)] (commitStore s))"
  | (Updated) repo h where "gitRepos t repoID = Some repo"
      "updateRepoToLatest t w repoID s
         = (Inr (repo, GetClonedBranch repo, h),
            emits s [EvPull repo (GetClonedBranch repo) None,
                     EvGetLatestCommit repo (Inr h)] (commitStore s))"
proof (cases "gitRepos t repoID")
  case None
  then have "updateRepoToLatest t w repoID s = (Inl notRegistered, s)"
    by (simp add: updateRepoToLatest_def notRegistered_def)
  with None Unregistered show ?thesis by blast
next
  case (Some repo)
  show ?thesis
  proof (cases "Pull w s repo (GetClonedBranch repo)")
    case (Some err)
    with \<open>gitRepos t repoID = Some repo\<close>
    have "updateRepoToLatest t w repoID s
         = (Inl err, emits s [EvPull repo (GetClonedBranch repo) (Some err)] (commitStore s))"
      by (simp add: updateRepoToLatest_def Let_def emits_start)
    with \<open>gitRepos t repoID = Some repo\<close> PullFailed show ?thesis by blast
  next
    case None
    let ?s1 = "emit (EvPull repo (GetClonedBranch repo) None) s"
    show ?thesis
    proof (cases "GetLatestCommit w ?s1 repo")
      case (Inl err)
      with None \<open>gitRepos t repoID = Some repo\<close>
      have "updateRepoToLatest t w repoID s
         = (Inl err, emits s [EvPull repo (GetClonedBranch repo) None,
                              EvGetLatestCommit repo (Inl err)] (commitStore s))"
        by (simp add: updateRepoToLatest_def Let_def)
           (simp add: emits_start emits_emits commitStore_emits)
      with \<open>gitRepos t repoID = Some repo\<close> CommitFailed show ?thesis by blast
    next
      case (Inr h)
      with None \<open>gitRepos t repoID = Some repo\<close>
      have "updateRepoToLatest t w repoID s
         = (Inr (repo, GetClonedBranch repo, h),
            emits s [EvPull repo (GetClonedBranch repo) None,
                     EvGetLatestCommit repo (Inr h)] (commitStore s))"
        by (simp add: updateRepoToLatest_def Let_def)
           (simp add: emits_start emits_emits commitStore_emits)
      with \<open>gitRepos t repoID = Some repo\<close> Updated show ?thesis by blast
    qed
  qed
qed

lemma failed_group_emitted:
  assumes "updateRepoToLatest t w repoID s = (Inl err, emits s es (commitStore s))"
  shows "\<exists>ls. emitted s (afterGroup t w repoID g s) = es @ ls
           \<and> failedGroupSegment repoID err (ls @ rest) = Some rest
           \<and> groupError t w repoID g s = [err]"
proof (cases "ctxErr w (emits s es (commitStore s)) \<noteq> Some Canceled")
  case True
  then have "emitted s (afterGroup t w repoID g s)
      = es @ [EvLogError (''failed to update git repository '' @ repoID @ '' to latest'') err,
              EvLogError (''failed while checking applications in repo '' @ repoID) err]"
    by (simp add: afterGroup_def repo_failed[OF assms] groupLog_def emits_simps)
  moreover have "groupError t w repoID g s = [err]"
    by (simp add: groupError_def repo_failed[OF assms])
  ultimately show ?thesis by (simp add: failedGroupSegment_def)
next
  case False
  then have "emitted s (afterGroup t w repoID g s)
      = es @ [EvLogError (''failed while checking applications in repo '' @ repoID) err]"
    by (simp add: afterGroup_def repo_failed[OF assms] groupLog_def emits_simps)
  moreover have "groupError t w repoID g s = [err]"
    by (simp add: groupError_def repo_failed[OF assms])
  ultimately show ?thesis by (simp add: failedGroupSegment_def)
qed

lemma group_segment:
  "groupSegment t w repoID g (emitted s (afterGroup t w repoID g s) @ rest)
     = Some (groupError t w repoID g s, rest)"
proof (rule update_cases[where t=t and w=w and repoID=repoID and s=s])
  assume n: "gitRepos t repoID = None"
    and u: "updateRepoToLatest t w repoID s = (Inl notRegistered, s)"
  from u have "updateRepoToLatest t w repoID s = (Inl notRegistered, emits s [] (commitStore s))"
    by (simp add: emits_same)
  from failed_group_emitted[OF this, of g rest] show ?thesis
    by (auto simp: groupSegment_def n notRegistered_def)
next
  fix repo err
  assume n: "gitRepos t repoID = Some repo"
    and u: "updateRepoToLatest t w repoID s
         = (Inl err, emits s [EvPull repo (GetClonedBranch repo) (Some err)] (commitStore s))"
  from failed_group_emitted[OF u, of g rest] show ?thesis
    by (auto simp: groupSegment_def n)
next
  fix repo err
  assume n: "gitRepos t repoID = Some repo"
    and u: "updateRepoToLatest t w repoID s
         = (Inl err, emits s [EvPull repo (GetClonedBranch repo) None,
                              EvGetLatestCommit repo (Inl err)] (commitStore s))"
  from failed_group_emitted[OF u, of g rest] show ?thesis
    by (auto simp: groupSegment_def n)
next
  fix repo h
  let ?s1 = "emits s [EvPull repo (GetClonedBranch repo) None,
                      EvGetLatestCommit repo (Inr h)] (commitStore s)"
  assume n: "gitRepos t repoID = Some repo"
    and u: "updateRepoToLatest t w repoID s = (Inr (repo, GetClonedBranch repo, h), ?s1)"
  have e: "emitted s (afterGroup t w repoID g s)
      = [EvPull repo (GetClonedBranch repo) None, EvGetLatestCommit repo (Inr h)]
        @ emitted ?s1 (checkLoop w repo (GetClonedBranch repo) h (newDeterminers repo h) g ?s1)"
  proof -
    have "emitted s (checkLoop w repo (GetClonedBranch repo) h (newDeterminers repo h) g ?s1)
        = emitted s ?s1
          @ emitted ?s1 (checkLoop w repo (GetClonedBranch repo) h (newDeterminers repo h) g ?s1)"
      by (rule emitted_trans[OF grows_emits checkLoop_grows])
    then show ?thesis
      by (simp add: afterGroup_def repo_updated[OF u] emits_simps)
  qed
  have r: "groupError t w repoID g s = []"
    by (simp add: groupError_def repo_updated[OF u])
  show ?thesis
    by (simp add: e r groupSegment_def n candidates_segment)
qed

lemma batch_segments:
  "batchSegments t w gs (emitted s (snd (checkGroups t w gs err s)))
     = Some (groupFailures t w gs s)"
proof (induction gs arbitrary: err s)
  case Nil
  show ?case by (simp add: emitted_refl)
next
  case (Cons a gs)
  obtain repoID g where a: "a = (repoID, g)" by (cases a)
  show ?case
    unfolding a checkGroups_emitted
    by (simp add: group_segment Cons.IH)
qed

lemma checkGroups_fold:
  "snd (checkGroups t w gs err s) = foldl (\<lambda>s' (repoID, g). afterGroup t w repoID g s') s gs"
proof (induction gs arbitrary: err s)
  case Nil
  show ?case by simp
next
  case (Cons a gs)
  obtain repoID g where a: "a = (repoID, g)" by (cases a)
  show ?case unfolding a checkGroups_Cons by (simp add: Cons.IH)
qed

lemma groupFailures_logged:
  "groupErrors (emitted s (snd (checkGroups t w gs err s))) = groupFailures t w gs s"
proof (induction gs arbitrary: err s)
  case Nil
  show ?case by (simp add: emitted_refl)
next
  case (Cons a gs)
  obtain repoID g where a: "a = (repoID, g)" by (cases a)
  show ?case
    unfolding a checkGroups_emitted
    by (simp add: proj_append afterGroup_groupErrors Cons.IH)
qed

subsection \<open>The commit store after a candidate\<close>




subsection \<open>Failures inside a group\<close>

lemma failuresReported_count:
  "failuresReported h es \<Longrightarrow> length (failedNotifications es) = failedCalls es"
  by (induction h es rule: failuresReported.induct)
     (auto simp: failedNotifications_def failedEvent_def split: list.splits)

lemma repo_loop_emitted:
  assumes "updateRepoToLatest t w repoID s = (Inr (g, b, h), s0)"
  shows "snd (checkRepoCandidates t w repoID cs s) = checkLoop w g b h (newDeterminers g h) cs s0"
    and "fst (checkRepoCandidates t w repoID cs s) = None"
  by (simp_all add: repo_updated[OF assms])

text \<open>
  C2. Once the repository of a group is up to date, the group returns no error
  whatever happens to its candidates, and its effects are exactly the
  evaluations of its N candidates, one after the other in the order of the
  group, each complete whatever happened to the candidates before it: the
  configuration is read; if it does not load, that is logged; if it loads, the
  determiner is called; a determiner error is followed by the
  DEPLOYMENT_TRIGGER_FAILED notification for that application and the log entry
  with the same message; on no, the Put is made; on yes, the deployment call is
  made, and its error is followed by the notification and the log entry, its
  success by the Put, the lookup of the environment, the notification and, for
  a command, the report. So the configuration of every candidate is read, in
  order, every failed call is followed at once by its notification and log
  entry, and there are as many DEPLOYMENT_TRIGGER_FAILED notifications as
  failed calls.
\<close>

theorem C2_isolation:
  assumes "updateRepoToLatest t w repoID s = (Inr (gitRepo, branch, headCommit), s0)"
  shows "fst (checkRepoCandidates t w repoID cs s) = None
     \<and> evaluatedInOrder w gitRepo branch headCommit (newDeterminers gitRepo headCommit) cs
         (emitted s0 (snd (checkRepoCandidates t w repoID cs s)))
     \<and> loads (emitted s0 (snd (checkRepoCandidates t w repoID cs s)))
         = map (\<lambda>c. absPath w gitRepo (application c)) cs
     \<and> failuresReported headCommit (emitted s0 (snd (checkRepoCandidates t w repoID cs s)))
     \<and> length (failedNotifications (emitted s0 (snd (checkRepoCandidates t w repoID cs s))))
         = failedCalls (emitted s0 (snd (checkRepoCandidates t w repoID cs s)))"
  unfolding repo_loop_emitted[OF assms]
  using checkLoop_failuresReported[of headCommit s0 w gitRepo branch "newDeterminers gitRepo headCommit" cs]
  by (simp add: checkLoop_loads failuresReported_count checkLoop_evaluatedInOrder)

text \<open>
  The theorem at a group of two candidates whose first determiner call fails:
  the second candidate, a command, is evaluated to the end. A list of effects in
  which the second candidate only has its configuration read is not an
  evaluation of the group.
\<close>

theorem C2_isolation_witness:
  "updateRepoToLatest trigger1 worldDetermineFails ''repo-1'' state0
     = (Inr (repo1, ''main'', head1),
        emit (EvGetLatestCommit repo1 (Inr head1)) (emit (EvPull repo1 ''main'' None) state0))
   \<and> fst (checkRepoCandidates trigger1 worldDetermineFails ''repo-1'' [commit1, command1] state0) = None
   \<and> evaluatedInOrder worldDetermineFails repo1 ''main'' head1 (newDeterminers repo1 head1)
        [commit1, command1]
        (emitted (emit (EvGetLatestCommit repo1 (Inr head1)) (emit (EvPull repo1 ''main'' None) state0))
          (snd (checkRepoCandidates trigger1 worldDetermineFails ''repo-1'' [commit1, command1] state0)))
   \<and> emitted (emit (EvGetLatestCommit repo1 (Inr head1)) (emit (EvPull repo1 ''main'' None) state0))
        (snd (checkRepoCandidates trigger1 worldDetermineFails ''repo-1'' [commit1, command1] state0))
       = [EvLoadFromYAML ''/r1/demo/app.yaml'' (Inr cfg1),
          EvShouldTrigger (newDeterminers repo1 head1) commitCandidate app1 spec1 (Inl (Errorf ''boom'')),
          failedEvent app1 (determineFailedMsg app1 (Errorf ''boom'')) head1,
          EvLogError (determineFailedMsg app1 (Errorf ''boom'')) (Errorf ''boom''),
          EvLoadFromYAML ''/r1/demo/app.yaml'' (Inr cfg1),
          EvShouldTrigger (newDeterminers repo1 head1) commandCandidate app1 spec1 (Inr True),
          EvTriggerDeployment app1 spec1 ''main'' head1 [] SyncStrategy_AUTO (Inr dep1),
          EvPut ''app-1'' ''H1'',
          EvEnvGet ''env-1'' (Inr \<lparr>envName = ''prod''\<rparr>),
          EvNotify \<lparr>Type = EVENT_DEPLOYMENT_TRIGGERED,
                    Metadata = NotificationEventDeploymentTriggered dep1 ''prod'' []\<rparr>,
          EvReport cmd1 COMMAND_SUCCEEDED [(''TriggeredDeploymentID'', ''d-42'')] None]
   \<and> \<not> evaluatedInOrder worldDetermineFails repo1 ''main'' head1 (newDeterminers repo1 head1)
        [commit1, command1]
        [EvLoadFromYAML ''/r1/demo/app.yaml'' (Inr cfg1),
          EvShouldTrigger (newDeterminers repo1 head1) commitCandidate app1 spec1 (Inl (Errorf ''boom'')),
          failedEvent app1 (determineFailedMsg app1 (Errorf ''boom'')) head1,
          EvLogError (determineFailedMsg app1 (Errorf ''boom'')) (Errorf ''boom''),
          EvLoadFromYAML ''/r1/demo/app.yaml'' (Inr cfg1)]
   \<and> loads (emitted (emit (EvGetLatestCommit repo1 (Inr head1)) (emit (EvPull repo1 ''main'' None) state0))
        (snd (checkRepoCandidates trigger1 worldDetermineFails ''repo-1'' [commit1, command1] state0)))
       = [''/r1/demo/app.yaml'', ''/r1/demo/app.yaml'']
   \<and> failedCalls (emitted (emit (EvGetLatestCommit repo1 (Inr head1)) (emit (EvPull repo1 ''main'' None) state0))
        (snd (checkRepoCandidates trigger1 worldDetermineFails ''repo-1'' [commit1, command1] state0)))
       = 1
   \<and> length (failedNotifications (emitted (emit (EvGetLatestCommit repo1 (Inr head1)) (emit (EvPull repo1 ''main'' None) state0))
        (snd (checkRepoCandidates trigger1 worldDetermineFails ''repo-1'' [commit1, command1] state0))))
       = 1"
proof -
  let ?s0 = "emit (EvGetLatestCommit repo1 (Inr head1)) (emit (EvPull repo1 ''main'' None) state0)"
  let ?s' = "snd (checkRepoCandidates trigger1 worldDetermineFails ''repo-1'' [commit1, command1] state0)"
  have u: "updateRepoToLatest trigger1 worldDetermineFails ''repo-1'' state0
             = (Inr (repo1, ''main'', head1), ?s0)"
    by (simp add: updateRepoToLatest_def trigger1_def worldDetermineFails_def world1_def repo1_def Let_def)
  have e: "emitted ?s0 ?s'
       = [EvLoadFromYAML ''/r1/demo/app.yaml'' (Inr cfg1),
          EvShouldTrigger (newDeterminers repo1 head1) commitCandidate app1 spec1 (Inl (Errorf ''boom'')),
          failedEvent app1 (determineFailedMsg app1 (Errorf ''boom'')) head1,
          EvLogError (determineFailedMsg app1 (Errorf ''boom'')) (Errorf ''boom''),
          EvLoadFromYAML ''/r1/demo/app.yaml'' (Inr cfg1),
          EvShouldTrigger (newDeterminers repo1 head1) commandCandidate app1 spec1 (Inr True),
          EvTriggerDeployment app1 spec1 ''main'' head1 [] SyncStrategy_AUTO (Inr dep1),
          EvPut ''app-1'' ''H1'',
          EvEnvGet ''env-1'' (Inr \<lparr>envName = ''prod''\<rparr>),
          EvNotify \<lparr>Type = EVENT_DEPLOYMENT_TRIGGERED,
                    Metadata = NotificationEventDeploymentTriggered dep1 ''prod'' []\<rparr>,
          EvReport cmd1 COMMAND_SUCCEEDED [(''TriggeredDeploymentID'', ''d-42'')] None]"
    by (simp add: run_defs concrete_defs worldDetermineFails_def emitted_def failedEvent_def
          determineFailedMsg_def triggeredDeploymentIDKey_def)
  have n: "\<not> evaluatedInOrder worldDetermineFails repo1 ''main'' head1 (newDeterminers repo1 head1)
        [commit1, command1]
        [EvLoadFromYAML ''/r1/demo/app.yaml'' (Inr cfg1),
          EvShouldTrigger (newDeterminers repo1 head1) commitCandidate app1 spec1 (Inl (Errorf ''boom'')),
          failedEvent app1 (determineFailedMsg app1 (Errorf ''boom'')) head1,
          EvLogError (determineFailedMsg app1 (Errorf ''boom'')) (Errorf ''boom''),
          EvLoadFromYAML ''/r1/demo/app.yaml'' (Inr cfg1)]"
    by (simp add: evaluatedInOrder_def candidateSegment_def determineSegment_def
          failureSegment_def loadedConfig_def absPath_def concrete_defs worldDetermineFails_def)
  have f: "failedCalls (emitted ?s0 ?s') = 1"
    by (simp only: e) (simp add: failedEvent_def)
  have p: "map (\<lambda>c. absPath worldDetermineFails repo1 (application c)) [commit1, command1]
            = [''/r1/demo/app.yaml'', ''/r1/demo/app.yaml'']"
    by (simp add: absPath_def concrete_defs worldDetermineFails_def)
  note inst = C2_isolation[OF u, of "[commit1, command1]", unfolded p f]
  from u inst e n f show ?thesis by (intro conjI) simp_all
qed

subsection \<open>A configuration that does not load\<close>

lemma load_fails:
  assumes "configMissing w gitRepo app s \<or> kindMismatch w gitRepo app s
             \<or> configUnreadable w gitRepo app s"
  shows "\<exists>err. fst (loadDeploymentConfiguration w (GetPath gitRepo) app s) = Inl err"
  using assms
  by (auto simp: configMissing_def kindMismatch_def configUnreadable_def
        loadDeploymentConfiguration_def absPath_def Let_def split: sum.splits prod.splits)

text \<open>
  C3. A candidate whose configuration file is missing, declares another kind than
  the application's, or cannot be read performs two effects only: the read of the
  file and the log entry "failed to load application config file". It sends no
  notification of any type, makes no deployment call and no Put, the commit store
  is as it was, and the loop goes on with the next candidate. The three causes
  differ in the logged error only.
\<close>

theorem C3_config_load_failure:
  assumes "configMissing w gitRepo (application c) s \<or> kindMismatch w gitRepo (application c) s
             \<or> configUnreadable w gitRepo (application c) s"
  shows "\<exists>err. emitted s (checkCandidate w gitRepo branch headCommit ds c s)
                 = [EvLoadFromYAML (absPath w gitRepo (application c))
                      (LoadFromYAML w s (absPath w gitRepo (application c))),
                    EvLogError ''failed to load application config file'' err]
           \<and> notifications (emitted s (checkCandidate w gitRepo branch headCommit ds c s)) = []
           \<and> triggerCalls (emitted s (checkCandidate w gitRepo branch headCommit ds c s)) = []
           \<and> puts (emitted s (checkCandidate w gitRepo branch headCommit ds c s)) = []
           \<and> commitStore (checkCandidate w gitRepo branch headCommit ds c s) = commitStore s
           \<and> checkLoop w gitRepo branch headCommit ds (c # rest) s
               = checkLoop w gitRepo branch headCommit ds rest
                   (checkCandidate w gitRepo branch headCommit ds c s)"
proof -
  from load_fails[OF assms] obtain err s1 where
    "loadDeploymentConfiguration w (GetPath gitRepo) (application c) s = (Inl err, s1)"
    by (cases "loadDeploymentConfiguration w (GetPath gitRepo) (application c) s") auto
  from cand_load_failed[OF this] show ?thesis
    by (simp add: emits_simps)
qed

theorem C3_config_load_failure_witness:
  "configMissing worldNoConfig repo1 (application commit1) state0
   \<and> emitted state0 (checkCandidate worldNoConfig repo1 ''main'' head1 (newDeterminers repo1 head1) commit1 state0)
       = [EvLoadFromYAML ''/r1/demo/app.yaml'' (Inl (NotExist ''no such file'')),
          EvLogError ''failed to load application config file''
            (Errorf ''application config file demo/app.yaml was not found in Git'')]
   \<and> kindMismatch worldOtherKind repo1 (application commit1) state0
   \<and> emitted state0 (checkCandidate worldOtherKind repo1 ''main'' head1 (newDeterminers repo1 head1) commit1 state0)
       = [EvLoadFromYAML ''/r1/demo/app.yaml'' (Inr cfg1),
          EvLogError ''failed to load application config file''
            (Errorf ''invalid application kind in the deployment config file, got: OTHER, expected: KUBERNETES'')]
   \<and> configUnreadable worldUnreadable repo1 (application commit1) state0
   \<and> emitted state0 (checkCandidate worldUnreadable repo1 ''main'' head1 (newDeterminers repo1 head1) commit1 state0)
       = [EvLoadFromYAML ''/r1/demo/app.yaml'' (Inl (Errorf ''yaml: did not find expected key'')),
          EvLogError ''failed to load application config file''
            (Errorf ''yaml: did not find expected key'')]
   \<and> commitStore (checkCandidate worldNoConfig repo1 ''main'' head1 (newDeterminers repo1 head1) commit1 state0)
       = commitStore state0
   \<and> commitStore (checkCandidate worldOtherKind repo1 ''main'' head1 (newDeterminers repo1 head1) commit1 state0)
       = commitStore state0
   \<and> commitStore (checkCandidate worldUnreadable repo1 ''main'' head1 (newDeterminers repo1 head1) commit1 state0)
       = commitStore state0"
proof -
  have m: "configMissing worldNoConfig repo1 (application commit1) state0"
    by (simp add: configMissing_def worldNoConfig_def world1_def)
  have k: "kindMismatch worldOtherKind repo1 (application commit1) state0"
    by (simp add: kindMismatch_def worldOtherKind_def world1_def commit1_def app1_def)
  have e1: "emitted state0 (checkCandidate worldNoConfig repo1 ''main'' head1 (newDeterminers repo1 head1) commit1 state0)
       = [EvLoadFromYAML ''/r1/demo/app.yaml'' (Inl (NotExist ''no such file'')),
          EvLogError ''failed to load application config file''
            (Errorf ''application config file demo/app.yaml was not found in Git'')]"
    by (simp add: run_defs concrete_defs worldNoConfig_def emitted_def)
  have e2: "emitted state0 (checkCandidate worldOtherKind repo1 ''main'' head1 (newDeterminers repo1 head1) commit1 state0)
       = [EvLoadFromYAML ''/r1/demo/app.yaml'' (Inr cfg1),
          EvLogError ''failed to load application config file''
            (Errorf ''invalid application kind in the deployment config file, got: OTHER, expected: KUBERNETES'')]"
    by (simp add: run_defs concrete_defs worldOtherKind_def emitted_def)
  from C3_config_load_failure[of worldNoConfig repo1 commit1 state0 "''main''" head1
         "newDeterminers repo1 head1" "[]"] m
  have c1: "commitStore (checkCandidate worldNoConfig repo1 ''main'' head1 (newDeterminers repo1 head1) commit1 state0)
       = commitStore state0" by blast
  from C3_config_load_failure[of worldOtherKind repo1 commit1 state0 "''main''" head1
         "newDeterminers repo1 head1" "[]"] k
  have c2: "commitStore (checkCandidate worldOtherKind repo1 ''main'' head1 (newDeterminers repo1 head1) commit1 state0)
       = commitStore state0" by blast
  have n: "configUnreadable worldUnreadable repo1 (application commit1) state0"
    by (simp add: configUnreadable_def worldUnreadable_def world1_def)
  have e3: "emitted state0 (checkCandidate worldUnreadable repo1 ''main'' head1 (newDeterminers repo1 head1) commit1 state0)
       = [EvLoadFromYAML ''/r1/demo/app.yaml'' (Inl (Errorf ''yaml: did not find expected key'')),
          EvLogError ''failed to load application config file''
            (Errorf ''yaml: did not find expected key'')]"
    by (simp add: run_defs concrete_defs worldUnreadable_def emitted_def)
  from C3_config_load_failure[of worldUnreadable repo1 commit1 state0 "''main''" head1
         "newDeterminers repo1 head1" "[]"] n
  have c3: "commitStore (checkCandidate worldUnreadable repo1 ''main'' head1 (newDeterminers repo1 head1) commit1 state0)
       = commitStore state0" by blast
  from m k e1 e2 c1 c2 n e3 c3 show ?thesis by (intro conjI)
qed

subsection \<open>After a created deployment\<close>

lemma afterCreate_notifications:
  "notifications (afterCreate w cfg d c s4) =
     (case EnvGet w s4 (deploymentEnvId d) of
        Inl err \<Rightarrow> []
      | Inr env \<Rightarrow>
          [\<lparr>Type = EVENT_DEPLOYMENT_TRIGGERED,
            Metadata = NotificationEventDeploymentTriggered d (envName env)
              (case DeploymentNotification cfg of
                 Some n \<Rightarrow> FindSlackAccounts w n EVENT_DEPLOYMENT_TRIGGERED | None \<Rightarrow> [])\<rparr>])"
  by (simp add: afterCreate_def Let_def proj_append split: sum.splits option.splits)

text \<open>
  C9. When the deployment has been created and the environment lister returns an
  error for the deployment's environment id, the candidate sends no notification
  at all. The deployment call has been made, the commit store holds the head
  commit for the application, and a command candidate still reports its command.
\<close>

theorem C9_environment_error_suppresses_notification:
  assumes "loadDeploymentConfiguration w (GetPath gitRepo) (application c) s = (Inr appCfg, s1)"
    and "callShouldTrigger w ds (kind c) (application c) appCfg s1 = (Inr True, s2)"
    and "callTriggerDeployment w (application c) appCfg branch headCommit [] SyncStrategy_AUTO s2
         = (Inr d, s3)"
    and "EnvGet w (Put (appId (application c)) (Hash headCommit) s3) (deploymentEnvId d) = Inl e"
  shows "notifications (emitted s (checkCandidate w gitRepo branch headCommit ds c s)) = []
     \<and> triggerCalls (emitted s (checkCandidate w gitRepo branch headCommit ds c s))
         = [(application c, appCfg, branch, headCommit, [], SyncStrategy_AUTO)]
     \<and> puts (emitted s (checkCandidate w gitRepo branch headCommit ds c s))
         = [(appId (application c), Hash headCommit)]
     \<and> commitStore (checkCandidate w gitRepo branch headCommit ds c s) (appId (application c))
         = Some (Hash headCommit)
     \<and> reports (emitted s (checkCandidate w gitRepo branch headCommit ds c s))
         = (if kind c = commandCandidate
            then [(command c, COMMAND_SUCCEEDED, [(triggeredDeploymentIDKey, deploymentId d)])]
            else [])"
  by (simp add: cand_triggered[OF assms(1,2,3)] emits_simps proj_append afterCreate_proj
        afterCreate_reports afterCreate_notifications assms(4))

theorem C9_environment_error_suppresses_notification_witness:
  "EnvGet worldNoEnvironment
     (Put ''app-1'' ''H1''
        (emit (EvTriggerDeployment app1 spec1 ''main'' head1 [] SyncStrategy_AUTO (Inr dep1))
          (emit (EvShouldTrigger (newDeterminers repo1 head1) commandCandidate app1 spec1 (Inr True))
            (emit (EvLoadFromYAML ''/r1/demo/app.yaml'' (Inr cfg1)) state0))))
     (deploymentEnvId dep1) = Inl (Errorf ''not found'')
   \<and> notifications (emitted state0 (checkCandidate worldNoEnvironment repo1 ''main'' head1
        (newDeterminers repo1 head1) command1 state0)) = []
   \<and> triggerCalls (emitted state0 (checkCandidate worldNoEnvironment repo1 ''main'' head1
        (newDeterminers repo1 head1) command1 state0))
       = [(app1, spec1, ''main'', head1, [], SyncStrategy_AUTO)]
   \<and> puts (emitted state0 (checkCandidate worldNoEnvironment repo1 ''main'' head1
        (newDeterminers repo1 head1) command1 state0)) = [(''app-1'', ''H1'')]
   \<and> reports (emitted state0 (checkCandidate worldNoEnvironment repo1 ''main'' head1
        (newDeterminers repo1 head1) command1 state0))
       = [(cmd1, COMMAND_SUCCEEDED, [(''TriggeredDeploymentID'', ''d-42'')])]"
proof -
  let ?s1 = "emit (EvLoadFromYAML ''/r1/demo/app.yaml'' (Inr cfg1)) state0"
  let ?s2 = "emit (EvShouldTrigger (newDeterminers repo1 head1) commandCandidate app1 spec1 (Inr True)) ?s1"
  let ?s3 = "emit (EvTriggerDeployment app1 spec1 ''main'' head1 [] SyncStrategy_AUTO (Inr dep1)) ?s2"
  have l: "loadDeploymentConfiguration worldNoEnvironment (GetPath repo1) (application command1) state0
           = (Inr spec1, ?s1)"
    by (simp add: loadDeploymentConfiguration_def worldNoEnvironment_def world1_def repo1_def
          command1_def app1_def cfg1_def Let_def)
  have d: "callShouldTrigger worldNoEnvironment (newDeterminers repo1 head1) (kind command1)
             (application command1) spec1 ?s1 = (Inr True, ?s2)"
    by (simp add: callShouldTrigger_def worldNoEnvironment_def world1_def command1_def emit_def)
  have t: "callTriggerDeployment worldNoEnvironment (application command1) spec1 ''main'' head1 []
             SyncStrategy_AUTO ?s2 = (Inr dep1, ?s3)"
    by (simp add: callTriggerDeployment_def worldNoEnvironment_def world1_def command1_def Let_def)
  have e: "EnvGet worldNoEnvironment (Put (appId (application command1)) (Hash head1) ?s3)
             (deploymentEnvId dep1) = Inl (Errorf ''not found'')"
    by (simp add: worldNoEnvironment_def world1_def)
  from C9_environment_error_suppresses_notification[OF l d t e] e show ?thesis
    by (simp add: command1_def app1_def head1_def dep1_def triggeredDeploymentIDKey_def)
qed

text \<open>
  C5. A COMMAND candidate whose deployment is created reports its command exactly
  once, as COMMAND_SUCCEEDED with the metadata TriggeredDeploymentID = the id of
  the new deployment. The report is the last call of the candidate: whether it
  fails or not, the deployment call and the Put before it are the same, the commit
  store holds the head commit, and a failure adds one log entry and nothing else;
  the loop goes on with the next candidate. A candidate of another kind makes no
  report, however it goes.
\<close>

theorem C5_command_report:
  assumes "loadDeploymentConfiguration w (GetPath gitRepo) (application c) s = (Inr appCfg, s1)"
    and "callShouldTrigger w ds (kind c) (application c) appCfg s1 = (Inr True, s2)"
    and "callTriggerDeployment w (application c) appCfg branch headCommit [] SyncStrategy_AUTO s2
         = (Inr d, s3)"
    and "kind c = commandCandidate"
    and "s5 = notifyDeploymentTriggered w appCfg d (Put (appId (application c)) (Hash headCommit) s3)"
    and "r = Report w s5 (command c) COMMAND_SUCCEEDED [(triggeredDeploymentIDKey, deploymentId d)]"
  shows "reports (emitted s (checkCandidate w gitRepo branch headCommit ds c s))
           = [(command c, COMMAND_SUCCEEDED, [(triggeredDeploymentIDKey, deploymentId d)])]
     \<and> checkCandidate w gitRepo branch headCommit ds c s
         = (case r of
              None \<Rightarrow>
                emit (EvReport (command c) COMMAND_SUCCEEDED
                        [(triggeredDeploymentIDKey, deploymentId d)] None) s5
            | Some err \<Rightarrow>
                emit (EvLogError ''failed to report command status'' err)
                  (emit (EvReport (command c) COMMAND_SUCCEEDED
                           [(triggeredDeploymentIDKey, deploymentId d)] (Some err)) s5))
     \<and> triggerCalls (emitted s (checkCandidate w gitRepo branch headCommit ds c s))
         = [(application c, appCfg, branch, headCommit, [], SyncStrategy_AUTO)]
     \<and> puts (emitted s (checkCandidate w gitRepo branch headCommit ds c s))
         = [(appId (application c), Hash headCommit)]
     \<and> commitStore (checkCandidate w gitRepo branch headCommit ds c s) (appId (application c))
         = Some (Hash headCommit)
     \<and> checkLoop w gitRepo branch headCommit ds (c # rest) s
         = checkLoop w gitRepo branch headCommit ds rest
             (checkCandidate w gitRepo branch headCommit ds c s)
     \<and> (\<forall>c' s'. kind c' \<noteq> commandCandidate \<longrightarrow>
           reports (emitted s' (checkCandidate w gitRepo branch headCommit ds c' s')) = [])"
proof -
  have step: "checkCandidate w gitRepo branch headCommit ds c s
         = (case r of
              None \<Rightarrow>
                emit (EvReport (command c) COMMAND_SUCCEEDED
                        [(triggeredDeploymentIDKey, deploymentId d)] None) s5
            | Some err \<Rightarrow>
                emit (EvLogError ''failed to report command status'' err)
                  (emit (EvReport (command c) COMMAND_SUCCEEDED
                           [(triggeredDeploymentIDKey, deploymentId d)] (Some err)) s5))"
    using assms
    by (simp add: checkCandidate_def callReport_def Let_def split: option.splits)
  have rest: "reports (emitted s (checkCandidate w gitRepo branch headCommit ds c s))
           = [(command c, COMMAND_SUCCEEDED, [(triggeredDeploymentIDKey, deploymentId d)])]
     \<and> triggerCalls (emitted s (checkCandidate w gitRepo branch headCommit ds c s))
         = [(application c, appCfg, branch, headCommit, [], SyncStrategy_AUTO)]
     \<and> puts (emitted s (checkCandidate w gitRepo branch headCommit ds c s))
         = [(appId (application c), Hash headCommit)]
     \<and> commitStore (checkCandidate w gitRepo branch headCommit ds c s) (appId (application c))
         = Some (Hash headCommit)"
    by (simp add: cand_triggered[OF assms(1,2,3)] emits_simps proj_append afterCreate_proj
          afterCreate_reports assms(4))
  from step rest show ?thesis
    by (simp add: checkCandidate_reports_other)
qed

theorem C5_command_report_witness:
  "kind command1 = commandCandidate
   \<and> Report worldReportFails
        (notifyDeploymentTriggered worldReportFails spec1 dep1
          (Put ''app-1'' ''H1''
            (emit (EvTriggerDeployment app1 spec1 ''main'' head1 [] SyncStrategy_AUTO (Inr dep1))
              (emit (EvShouldTrigger (newDeterminers repo1 head1) commandCandidate app1 spec1 (Inr True))
                (emit (EvLoadFromYAML ''/r1/demo/app.yaml'' (Inr cfg1)) state0)))))
        cmd1 COMMAND_SUCCEEDED [(''TriggeredDeploymentID'', ''d-42'')] = Some (Errorf ''lost'')
   \<and> reports (emitted state0 (checkCandidate worldReportFails repo1 ''main'' head1
        (newDeterminers repo1 head1) command1 state0))
       = [(cmd1, COMMAND_SUCCEEDED, [(''TriggeredDeploymentID'', ''d-42'')])]
   \<and> triggerCalls (emitted state0 (checkCandidate worldReportFails repo1 ''main'' head1
        (newDeterminers repo1 head1) command1 state0))
       = [(app1, spec1, ''main'', head1, [], SyncStrategy_AUTO)]
   \<and> commitStore (checkCandidate worldReportFails repo1 ''main'' head1
        (newDeterminers repo1 head1) command1 state0) ''app-1'' = Some ''H1''
   \<and> reports (emitted state0 (checkCandidate worldReportFails repo1 ''main'' head1
        (newDeterminers repo1 head1) commit1 state0)) = []"
proof -
  let ?s1 = "emit (EvLoadFromYAML ''/r1/demo/app.yaml'' (Inr cfg1)) state0"
  let ?s2 = "emit (EvShouldTrigger (newDeterminers repo1 head1) commandCandidate app1 spec1 (Inr True)) ?s1"
  let ?s3 = "emit (EvTriggerDeployment app1 spec1 ''main'' head1 [] SyncStrategy_AUTO (Inr dep1)) ?s2"
  have v: "application command1 = app1" "command command1 = cmd1" "appId app1 = ''app-1''"
    "Hash head1 = ''H1''" "deploymentId dep1 = ''d-42''"
    "triggeredDeploymentIDKey = ''TriggeredDeploymentID''"
    by (simp_all add: command1_def app1_def head1_def dep1_def triggeredDeploymentIDKey_def)
  have l: "loadDeploymentConfiguration worldReportFails (GetPath repo1) (application command1) state0
           = (Inr spec1, ?s1)"
    by (simp add: loadDeploymentConfiguration_def worldReportFails_def world1_def repo1_def
          command1_def app1_def cfg1_def Let_def)
  have d: "callShouldTrigger worldReportFails (newDeterminers repo1 head1) (kind command1)
             (application command1) spec1 ?s1 = (Inr True, ?s2)"
    by (simp add: callShouldTrigger_def worldReportFails_def world1_def command1_def emit_def)
  have t: "callTriggerDeployment worldReportFails (application command1) spec1 ''main'' head1 []
             SyncStrategy_AUTO ?s2 = (Inr dep1, ?s3)"
    by (simp add: callTriggerDeployment_def worldReportFails_def world1_def command1_def Let_def)
  have k: "kind command1 = commandCandidate" by (simp add: command1_def)
  have k2: "kind commit1 \<noteq> commandCandidate" by (simp add: commit1_def)
  have r: "Report worldReportFails
        (notifyDeploymentTriggered worldReportFails spec1 dep1
          (Put ''app-1'' ''H1'' ?s3))
        cmd1 COMMAND_SUCCEEDED [(''TriggeredDeploymentID'', ''d-42'')] = Some (Errorf ''lost'')"
    by (simp add: worldReportFails_def world1_def)
  note inst = C5_command_report[OF l d t k refl refl, of "[]", unfolded v]
  from inst k2 have "reports (emitted state0 (checkCandidate worldReportFails repo1 ''main'' head1
        (newDeterminers repo1 head1) commit1 state0)) = []" by blast
  with inst k r show ?thesis by blast
qed

subsection \<open>An unregistered repository\<close>

lemma distinct_singleton_set: "distinct xs \<Longrightarrow> set xs = {a} \<Longrightarrow> xs = [a]"
proof (cases xs)
  case Nil
  assume "set xs = {a}"
  with Nil show ?thesis by simp
next
  case (Cons x ys)
  assume d: "distinct xs" and s: "set xs = {a}"
  show ?thesis
  proof (cases ys)
    case Nil
    with Cons s show ?thesis by simp
  next
    case (Cons y zs)
    with \<open>xs = x # ys\<close> s have "x = a" "y = a" by auto
    with Cons \<open>xs = x # ys\<close> d show ?thesis by simp
  qed
qed

lemma groupByRepo_single:
  assumes "cs \<noteq> []" and "\<forall>c\<in>set cs. repoIdOf c = repoID"
  shows "groupByRepo cs [] = [(repoID, cs)]"
proof -
  let ?csm = "groupByRepo cs []"
  have d: "distinct (map fst ?csm)" by (rule groupByRepo_distinct) simp
  obtain c cs' where cs: "cs = c # cs'" using assms(1) by (cases cs) auto
  have "repoIdOf ` set cs = {repoID}" using assms(2) unfolding cs by auto
  then have k: "set (map fst ?csm) = {repoID}"
    using groupByRepo_keys[of cs "[]"] by simp
  from distinct_singleton_set[OF d k] obtain g where csm: "?csm = [(repoID, g)]"
    by (cases ?csm) auto
  then have "(repoID, g) \<in> set ?csm" by simp
  from groupByRepo_groups(1)[OF this] have "g = filter (\<lambda>c. repoIdOf c = repoID) cs" .
  also have "\<dots> = cs" using assms(2) by (simp add: filter_id_conv)
  finally show ?thesis using csm by simp
qed

lemma mapRange_single: "mapRange pick [x] = [x]"
  by (simp add: Let_def)

text \<open>
  C10. A group whose repository id is not in the map of cloned repositories
  fails with "the repository was not registered in Piped configuration". The only
  effect of the group is the log entry of that failure (none when the context is
  cancelled): no Pull, no read of a configuration, no notification, no Put, and
  the commit store is as it was. \<open>checkCandidates\<close> takes the error as its own,
  and returns it when the batch has no other group.
\<close>

theorem C10_unregistered_repository:
  assumes "gitRepos t repoID = None"
  shows "fst (checkRepoCandidates t w repoID cs s) = Some notRegistered
     \<and> emitted s (snd (checkRepoCandidates t w repoID cs s))
         = (if ctxErr w s \<noteq> Some Canceled
            then [EvLogError (''failed to update git repository '' @ repoID @ '' to latest'')
                    notRegistered]
            else [])
     \<and> pulls (emitted s (snd (checkRepoCandidates t w repoID cs s))) = []
     \<and> loads (emitted s (snd (checkRepoCandidates t w repoID cs s))) = []
     \<and> notifications (emitted s (snd (checkRepoCandidates t w repoID cs s))) = []
     \<and> puts (emitted s (snd (checkRepoCandidates t w repoID cs s))) = []
     \<and> commitStore (snd (checkRepoCandidates t w repoID cs s)) = commitStore s
     \<and> checkGroups t w ((repoID, cs) # rest) err s
         = checkGroups t w rest (Some notRegistered) (afterGroup t w repoID cs s)
     \<and> (cs \<noteq> [] \<and> (\<forall>c\<in>set cs. repoIdOf c = repoID)
          \<longrightarrow> fst (checkCandidates t w cs s) = Some notRegistered)"
proof -
  let ?log = "EvLogError (''failed to update git repository '' @ repoID @ '' to latest'') notRegistered"
  have u: "updateRepoToLatest t w repoID s = (Inl notRegistered, s)"
    using assms by (simp add: updateRepoToLatest_def notRegistered_def)
  have r: "checkRepoCandidates t w repoID cs s =
       (Some notRegistered, if ctxErr w s \<noteq> Some Canceled then emit ?log s else s)"
    by (rule repo_failed[OF u])
  have f: "fst (checkRepoCandidates t w repoID cs s) = Some notRegistered"
    by (simp add: r)
  have e: "emitted s (snd (checkRepoCandidates t w repoID cs s))
         = (if ctxErr w s \<noteq> Some Canceled then [?log] else [])"
    by (simp add: r emitted_refl emitted_emit grows_refl)
  have p: "pulls (emitted s (snd (checkRepoCandidates t w repoID cs s))) = []"
    "loads (emitted s (snd (checkRepoCandidates t w repoID cs s))) = []"
    "notifications (emitted s (snd (checkRepoCandidates t w repoID cs s))) = []"
    "puts (emitted s (snd (checkRepoCandidates t w repoID cs s))) = []"
    unfolding e by simp_all
  have c: "commitStore (snd (checkRepoCandidates t w repoID cs s)) = commitStore s"
    by (simp add: r commitStore_emit)
  have g: "checkGroups t w ((repoID, cs) # rest') err' s
         = checkGroups t w rest' (Some notRegistered) (afterGroup t w repoID cs s)" for rest' err'
    by (simp only: checkGroups_Cons f option.case)
  have b: "fst (checkCandidates t w cs s) = Some notRegistered"
    if "cs \<noteq> [] \<and> (\<forall>c\<in>set cs. repoIdOf c = repoID)"
  proof -
    from that have "groupByRepo cs [] = [(repoID, cs)]" by (intro groupByRepo_single) auto
    then have "checkCandidates t w cs s = checkGroups t w [(repoID, cs)] None s"
      by (simp only: checkCandidates_def mapRange_single)
    also have "\<dots> = checkGroups t w [] (Some notRegistered) (afterGroup t w repoID cs s)"
      by (rule g)
    finally show ?thesis by simp
  qed
  from f e p c g[of rest err] b show ?thesis by blast
qed

theorem C10_unregistered_repository_witness:
  "gitRepos triggerNoRepos ''repo-1'' = None
   \<and> [commit1, command1] \<noteq> []
   \<and> map repoIdOf [commit1, command1] = [''repo-1'', ''repo-1'']
   \<and> ctxErr world1 state0 \<noteq> Some Canceled
   \<and> fst (checkCandidates triggerNoRepos world1 [commit1, command1] state0) = Some notRegistered
   \<and> emitted state0 (snd (checkRepoCandidates triggerNoRepos world1 ''repo-1'' [commit1, command1] state0))
       = [EvLogError (''failed to update git repository '' @ ''repo-1'' @ '' to latest'') notRegistered]
   \<and> commitStore (snd (checkRepoCandidates triggerNoRepos world1 ''repo-1'' [commit1, command1] state0))
       = commitStore state0"
proof -
  have n: "gitRepos triggerNoRepos ''repo-1'' = None"
    by (simp add: triggerNoRepos_def)
  have a: "\<forall>c\<in>set [commit1, command1]. repoIdOf c = ''repo-1''"
    by (simp add: repoIdOf_def commit1_def command1_def app1_def)
  have c: "ctxErr world1 state0 \<noteq> Some Canceled" by (simp add: world1_def)
  have e: "[commit1, command1] \<noteq> []" by simp
  have m: "map repoIdOf [commit1, command1] = [''repo-1'', ''repo-1'']"
    by (simp add: repoIdOf_def commit1_def command1_def app1_def)
  note inst = C10_unregistered_repository[OF n, of world1 "[commit1, command1]" state0 "[]" None]
  from inst have "emitted state0 (snd (checkRepoCandidates triggerNoRepos world1 ''repo-1'' [commit1, command1] state0))
       = (if ctxErr world1 state0 \<noteq> Some Canceled
          then [EvLogError (''failed to update git repository '' @ ''repo-1'' @ '' to latest'') notRegistered]
          else [])"
    by blast
  with c have "emitted state0 (snd (checkRepoCandidates triggerNoRepos world1 ''repo-1'' [commit1, command1] state0))
       = [EvLogError (''failed to update git repository '' @ ''repo-1'' @ '' to latest'') notRegistered]"
    by (simp only: if_True if_False not_False_eq_True simp_thms)
  with inst n a c e m show ?thesis by blast
qed

lemmas batch_defs = checkCandidates_def syncTick_def listCommitCandidates_def
  listOutOfSyncCandidates_def repoIdOf_def

subsection \<open>Counting the Git operations of a batch\<close>


lemma batch_pulls_set:
  "set (pulls (emitted s (snd (checkCandidates t w cs s))))
     = {(repo, GetClonedBranch repo) | repo r. r \<in> repoIdOf ` set cs \<and> gitRepos t r = Some repo}"
proof -
  let ?gs = "mapRange (rangePick w) (groupByRepo cs [])"
  have k: "fst ` set ?gs = repoIdOf ` set cs"
    using groupByRepo_keys[of cs "[]"] by (simp add: mapRange_set)
  have "set (pulls (emitted s (snd (checkCandidates t w cs s))))
          = (\<Union>r \<in> fst ` set ?gs. set (pullOf t r))"
    by (simp add: checkCandidates_def checkGroups_pulls)
  also have "\<dots> = {(repo, GetClonedBranch repo) | repo r.
                      r \<in> repoIdOf ` set cs \<and> gitRepos t r = Some repo}"
    unfolding k by (auto simp: pullOf_def split: option.splits)
  finally show ?thesis .
qed




subsection \<open>A repository that cannot be refreshed\<close>

lemma repo_failed_effects:
  assumes "updateRepoToLatest t w repoID s = (Inl err, s1)"
  shows "fst (checkRepoCandidates t w repoID g s) = Some err"
    and "loads (emitted s (snd (checkRepoCandidates t w repoID g s))) = []"
    and "notifications (emitted s (snd (checkRepoCandidates t w repoID g s))) = []"
    and "puts (emitted s (snd (checkRepoCandidates t w repoID g s))) = []"
    and "triggerCalls (emitted s (snd (checkRepoCandidates t w repoID g s))) = []"
    and "reports (emitted s (snd (checkRepoCandidates t w repoID g s))) = []"
    and "commitStore (snd (checkRepoCandidates t w repoID g s)) = commitStore s"
proof -
  from update_emits[OF assms] obtain es where s1: "s1 = emits s es (commitStore s)"
    and p: "loads es = []" "notifications es = []" "puts es = []" "triggerCalls es = []"
      "reports es = []"
    by blast
  show "fst (checkRepoCandidates t w repoID g s) = Some err"
    by (simp add: repo_failed[OF assms])
  show "loads (emitted s (snd (checkRepoCandidates t w repoID g s))) = []"
    by (simp add: repo_failed[OF assms] s1 emits_simps proj_append p)
  show "notifications (emitted s (snd (checkRepoCandidates t w repoID g s))) = []"
    by (simp add: repo_failed[OF assms] s1 emits_simps proj_append p)
  show "puts (emitted s (snd (checkRepoCandidates t w repoID g s))) = []"
    by (simp add: repo_failed[OF assms] s1 emits_simps proj_append p)
  show "triggerCalls (emitted s (snd (checkRepoCandidates t w repoID g s))) = []"
    by (simp add: repo_failed[OF assms] s1 emits_simps proj_append p)
  show "reports (emitted s (snd (checkRepoCandidates t w repoID g s))) = []"
    by (simp add: repo_failed[OF assms] s1 emits_simps proj_append p)
  show "commitStore (snd (checkRepoCandidates t w repoID g s)) = commitStore s"
    by (simp add: repo_failed[OF assms] s1 emits_simps)
qed

lemma batch_result:
  "fst (checkCandidates t w cs s)
     = lastError (groupErrors (emitted s (snd (checkCandidates t w cs s))))"
  unfolding checkCandidates_def
  by (subst checkGroups_result) (simp split: option.splits)

lemma batch_result_failures:
  "fst (checkCandidates t w cs s)
     = lastError (groupFailures t w (mapRange (rangePick w) (groupByRepo cs [])) s)"
  using batch_result[of t w cs s]
  by (simp add: checkCandidates_def groupFailures_logged)

text \<open>
  C7. When a repository cannot be brought up to date, its group returns that
  error and none of its candidates is touched: besides the attempt to update,
  the only effect of the group is the log entry of the failure (none when the
  context is cancelled), so no configuration is read, no notification is sent,
  no deployment call, no report and no Put is made, and the commit store is as
  it was. A group whose repository is up to date returns no error, whatever
  happens to its candidates. The batch visits every group, in the order of the
  range, whatever happened to the groups before: its effects are exactly the
  effects of the groups one after the other, each either its failed update with
  the failure logs or its update with the evaluation of all its candidates, and
  its state is the state after all the groups. The batch returns the error of
  the group that failed last in that order, none when no group failed; the
  errors are those of the updates, as the trace records them. Every registered
  repository of the batch is pulled.
\<close>

theorem C7_repository_update_failure:
  "(\<forall>err s1. updateRepoToLatest t w repoID s = (Inl err, s1) \<longrightarrow>
       checkRepoCandidates t w repoID g s
         = (Some err,
            if ctxErr w s1 \<noteq> Some Canceled
            then emit (EvLogError (''failed to update git repository '' @ repoID @ '' to latest'') err) s1
            else s1)
       \<and> fst (checkRepoCandidates t w repoID g s) = Some err
       \<and> loads (emitted s (snd (checkRepoCandidates t w repoID g s))) = []
       \<and> notifications (emitted s (snd (checkRepoCandidates t w repoID g s))) = []
       \<and> puts (emitted s (snd (checkRepoCandidates t w repoID g s))) = []
       \<and> triggerCalls (emitted s (snd (checkRepoCandidates t w repoID g s))) = []
       \<and> reports (emitted s (snd (checkRepoCandidates t w repoID g s))) = []
       \<and> kindsProcessed (emitted s (snd (checkRepoCandidates t w repoID g s))) = []
       \<and> commitStore (snd (checkRepoCandidates t w repoID g s)) = commitStore s)
   \<and> (\<forall>gitRepo branch headCommit s1.
         updateRepoToLatest t w repoID s = (Inr (gitRepo, branch, headCommit), s1) \<longrightarrow>
         fst (checkRepoCandidates t w repoID g s) = None)
   \<and> map_option lastError
        (batchSegments t w (mapRange (rangePick w) (groupByRepo cs []))
           (emitted s (snd (checkCandidates t w cs s))))
       = Some (fst (checkCandidates t w cs s))
   \<and> batchSegments t w (mapRange (rangePick w) (groupByRepo cs []))
        (emitted s (snd (checkCandidates t w cs s)))
       = Some (groupFailures t w (mapRange (rangePick w) (groupByRepo cs [])) s)
   \<and> fst (checkCandidates t w cs s)
       = lastError (groupFailures t w (mapRange (rangePick w) (groupByRepo cs [])) s)
   \<and> snd (checkCandidates t w cs s)
       = foldl (\<lambda>s' (repoID, g). afterGroup t w repoID g s') s
           (mapRange (rangePick w) (groupByRepo cs []))
   \<and> fst (checkCandidates t w cs s)
       = lastError (groupErrors (emitted s (snd (checkCandidates t w cs s))))
   \<and> set (pulls (emitted s (snd (checkCandidates t w cs s))))
       = {(repo, GetClonedBranch repo) | repo r.
            r \<in> repoIdOf ` set cs \<and> gitRepos t r = Some repo}"
proof -
  let ?gs = "mapRange (rangePick w) (groupByRepo cs [])"
  have a: "\<forall>err s1. updateRepoToLatest t w repoID s = (Inl err, s1) \<longrightarrow>
       checkRepoCandidates t w repoID g s
         = (Some err,
            if ctxErr w s1 \<noteq> Some Canceled
            then emit (EvLogError (''failed to update git repository '' @ repoID @ '' to latest'') err) s1
            else s1)
       \<and> fst (checkRepoCandidates t w repoID g s) = Some err
       \<and> loads (emitted s (snd (checkRepoCandidates t w repoID g s))) = []
       \<and> notifications (emitted s (snd (checkRepoCandidates t w repoID g s))) = []
       \<and> puts (emitted s (snd (checkRepoCandidates t w repoID g s))) = []
       \<and> triggerCalls (emitted s (snd (checkRepoCandidates t w repoID g s))) = []
       \<and> reports (emitted s (snd (checkRepoCandidates t w repoID g s))) = []
       \<and> kindsProcessed (emitted s (snd (checkRepoCandidates t w repoID g s))) = []
       \<and> commitStore (snd (checkRepoCandidates t w repoID g s)) = commitStore s"
  proof (intro allI impI)
    fix err s1
    assume u: "updateRepoToLatest t w repoID s = (Inl err, s1)"
    from update_emits[OF u] obtain es where s1: "s1 = emits s es (commitStore s)"
      and k: "kindsProcessed es = []" by blast
    have kp: "kindsProcessed (emitted s (snd (checkRepoCandidates t w repoID g s))) = []"
      by (simp add: repo_failed[OF u] s1 emits_simps proj_append k)
    from repo_failed[OF u, of g] repo_failed_effects[OF u, of g] kp
    show "checkRepoCandidates t w repoID g s
         = (Some err,
            if ctxErr w s1 \<noteq> Some Canceled
            then emit (EvLogError (''failed to update git repository '' @ repoID @ '' to latest'') err) s1
            else s1)
       \<and> fst (checkRepoCandidates t w repoID g s) = Some err
       \<and> loads (emitted s (snd (checkRepoCandidates t w repoID g s))) = []
       \<and> notifications (emitted s (snd (checkRepoCandidates t w repoID g s))) = []
       \<and> puts (emitted s (snd (checkRepoCandidates t w repoID g s))) = []
       \<and> triggerCalls (emitted s (snd (checkRepoCandidates t w repoID g s))) = []
       \<and> reports (emitted s (snd (checkRepoCandidates t w repoID g s))) = []
       \<and> kindsProcessed (emitted s (snd (checkRepoCandidates t w repoID g s))) = []
       \<and> commitStore (snd (checkRepoCandidates t w repoID g s)) = commitStore s"
      by (intro conjI)
  qed
  have b: "\<forall>gitRepo branch headCommit s1.
         updateRepoToLatest t w repoID s = (Inr (gitRepo, branch, headCommit), s1) \<longrightarrow>
         fst (checkRepoCandidates t w repoID g s) = None"
    by (simp add: repo_updated)
  have seg: "batchSegments t w ?gs (emitted s (snd (checkCandidates t w cs s)))
       = Some (groupFailures t w ?gs s)"
    unfolding checkCandidates_def by (rule batch_segments)
  have res: "fst (checkCandidates t w cs s) = lastError (groupFailures t w ?gs s)"
    by (rule batch_result_failures)
  have c: "map_option lastError (batchSegments t w ?gs (emitted s (snd (checkCandidates t w cs s))))
       = Some (fst (checkCandidates t w cs s))"
    by (simp only: seg res option.map)
  have f: "snd (checkCandidates t w cs s)
       = foldl (\<lambda>s' (repoID, g). afterGroup t w repoID g s') s ?gs"
    unfolding checkCandidates_def by (rule checkGroups_fold)
  from a b c seg res f batch_result[of t w cs s] batch_pulls_set[of s t w cs] show ?thesis
    by (intro conjI)
qed

text \<open>
  The theorem at a batch of two groups. When the Pull of the first repository
  fails, the candidate of the second is evaluated. When both Pulls fail, the
  batch returns the error of the second.
\<close>

theorem C7_repository_update_failure_witness:
  "updateRepoToLatest trigger1 worldPullFails ''repo-1'' state0
     = (Inl (Errorf ''network''), emit (EvPull repo1 ''main'' (Some (Errorf ''network''))) state0)
   \<and> fst (checkRepoCandidates trigger1 worldPullFails ''repo-1'' [commit1] state0)
       = Some (Errorf ''network'')
   \<and> loads (emitted state0 (snd (checkRepoCandidates trigger1 worldPullFails ''repo-1'' [commit1] state0)))
       = []
   \<and> commitStore (snd (checkRepoCandidates trigger1 worldPullFails ''repo-1'' [commit1] state0))
       = commitStore state0
   \<and> groupErrors (emitted state0 (snd (checkCandidates trigger1 worldPullFails [commit1, commit2] state0)))
       = [Errorf ''network'']
   \<and> fst (checkCandidates trigger1 worldPullFails [commit1, commit2] state0)
       = lastError [Errorf ''network'']
   \<and> loads (emitted state0 (snd (checkCandidates trigger1 worldPullFails [commit1, commit2] state0)))
       = [''/r2/other/app.yaml'']
   \<and> kindsProcessed (emitted state0 (snd (checkCandidates trigger1 worldPullFails [commit1, commit2] state0)))
       = [commitCandidate]
   \<and> pulls (emitted state0 (snd (checkCandidates trigger1 worldPullFails [commit1, commit2] state0)))
       = [(repo1, ''main''), (repo2, ''main'')]
   \<and> updateRepoToLatest trigger1 worldPullFails ''repo-2'' state0
       = (Inr (repo2, ''main'', head1),
          emit (EvGetLatestCommit repo2 (Inr head1)) (emit (EvPull repo2 ''main'' None) state0))
   \<and> fst (checkRepoCandidates trigger1 worldPullFails ''repo-2'' [commit2] state0) = None
   \<and> mapRange (rangePick worldAllPullsFail) (groupByRepo [commit1, commit2] [])
       = [(''repo-1'', [commit1]), (''repo-2'', [commit2])]
   \<and> groupFailures trigger1 worldAllPullsFail
        (mapRange (rangePick worldAllPullsFail) (groupByRepo [commit1, commit2] [])) state0
       = [Errorf ''pull of /r1 failed'', Errorf ''pull of /r2 failed'']
   \<and> batchSegments trigger1 worldAllPullsFail
        (mapRange (rangePick worldAllPullsFail) (groupByRepo [commit1, commit2] []))
        (emitted state0 (snd (checkCandidates trigger1 worldAllPullsFail [commit1, commit2] state0)))
       = Some [Errorf ''pull of /r1 failed'', Errorf ''pull of /r2 failed'']
   \<and> fst (checkCandidates trigger1 worldAllPullsFail [commit1, commit2] state0)
       = Some (Errorf ''pull of /r2 failed'')"
proof -
  have u: "updateRepoToLatest trigger1 worldPullFails ''repo-1'' state0
     = (Inl (Errorf ''network''), emit (EvPull repo1 ''main'' (Some (Errorf ''network''))) state0)"
    by (simp add: updateRepoToLatest_def trigger1_def worldPullFails_def world1_def repo1_def Let_def)
  have e: "groupErrors (emitted state0 (snd (checkCandidates trigger1 worldPullFails [commit1, commit2] state0)))
       = [Errorf ''network'']"
    by (simp add: batch_defs run_defs concrete_defs commit2_def worldPullFails_def emitted_def)
  have l: "loads (emitted state0 (snd (checkCandidates trigger1 worldPullFails [commit1, commit2] state0)))
       = [''/r2/other/app.yaml'']"
    by (simp add: batch_defs run_defs concrete_defs commit2_def worldPullFails_def emitted_def)
  have kp: "kindsProcessed (emitted state0 (snd (checkCandidates trigger1 worldPullFails [commit1, commit2] state0)))
       = [commitCandidate]"
    by (simp add: batch_defs run_defs concrete_defs commit2_def worldPullFails_def emitted_def)
  have p: "pulls (emitted state0 (snd (checkCandidates trigger1 worldPullFails [commit1, commit2] state0)))
       = [(repo1, ''main''), (repo2, ''main'')]"
    by (simp add: batch_defs run_defs concrete_defs commit2_def worldPullFails_def emitted_def)
  note inst = C7_repository_update_failure[of trigger1 worldPullFails "''repo-1''" state0
      "[commit1]" "[commit1, commit2]"]
  note failed = inst[THEN conjunct1, rule_format, OF u]
  note result = inst[THEN conjunct2, THEN conjunct2, THEN conjunct2, THEN conjunct2,
      THEN conjunct2, THEN conjunct2, THEN conjunct1]
  have r: "fst (checkCandidates trigger1 worldPullFails [commit1, commit2] state0)
       = lastError [Errorf ''network'']"
    using result by (simp only: e)
  note f = failed[THEN conjunct2, THEN conjunct1]
    failed[THEN conjunct2, THEN conjunct2, THEN conjunct1]
    failed[THEN conjunct2, THEN conjunct2, THEN conjunct2, THEN conjunct2, THEN conjunct2,
      THEN conjunct2, THEN conjunct2, THEN conjunct2]
  have u2: "updateRepoToLatest trigger1 worldPullFails ''repo-2'' state0
       = (Inr (repo2, ''main'', head1),
          emit (EvGetLatestCommit repo2 (Inr head1)) (emit (EvPull repo2 ''main'' None) state0))"
    by (simp add: updateRepoToLatest_def trigger1_def worldPullFails_def world1_def repo1_def
          repo2_def Let_def)
  note ok = C7_repository_update_failure[of trigger1 worldPullFails "''repo-2''" state0
      "[commit2]" "[]", THEN conjunct2, THEN conjunct1, rule_format, OF u2]
  have gs: "mapRange (rangePick worldAllPullsFail) (groupByRepo [commit1, commit2] [])
       = [(''repo-1'', [commit1]), (''repo-2'', [commit2])]"
    by (simp add: repoIdOf_def commit1_def commit2_def app1_def app2_def Let_def
          worldAllPullsFail_def world1_def)
  have gf: "groupFailures trigger1 worldAllPullsFail
        (mapRange (rangePick worldAllPullsFail) (groupByRepo [commit1, commit2] [])) state0
       = [Errorf ''pull of /r1 failed'', Errorf ''pull of /r2 failed'']"
    by (simp only: gs)
       (simp add: groupError_def afterGroup_def groupLog_def run_defs concrete_defs commit2_def
          worldAllPullsFail_def)
  note both = C7_repository_update_failure[of trigger1 worldAllPullsFail "''repo-1''" state0
      "[commit1]" "[commit1, commit2]", THEN conjunct2, THEN conjunct2]
  have bs: "batchSegments trigger1 worldAllPullsFail
        (mapRange (rangePick worldAllPullsFail) (groupByRepo [commit1, commit2] []))
        (emitted state0 (snd (checkCandidates trigger1 worldAllPullsFail [commit1, commit2] state0)))
       = Some [Errorf ''pull of /r1 failed'', Errorf ''pull of /r2 failed'']"
    using both[THEN conjunct2, THEN conjunct1] by (simp only: gf)
  have last: "fst (checkCandidates trigger1 worldAllPullsFail [commit1, commit2] state0)
       = Some (Errorf ''pull of /r2 failed'')"
    using both[THEN conjunct2, THEN conjunct2, THEN conjunct1]
    by (simp only: gf) (simp add: lastError_def)
  from u f e r l kp p u2 ok gs gf bs last show ?thesis by (intro conjI)
qed

subsection \<open>The order of a sync tick\<close>










subsection \<open>The arguments of the deployment call\<close>

text \<open>
  C4. The code at a COMMAND candidate whose command names its commander and an
  explicit sync strategy: the deployment is requested from the application, the
  configuration, the branch and the head commit, but with the empty commander
  and SyncStrategy_AUTO.
\<close>

theorem C4_commander_not_passed:
  "kind command1 = commandCandidate
   \<and> Commander (command command1) = ''user-1''
   \<and> map_option cmdSyncStrategy (GetSyncApplication (command command1)) = Some (OtherSyncStrategy 1)
   \<and> triggerCalls (emitted state0 (checkCandidate world1 repo1 ''main'' head1
        (newDeterminers repo1 head1) command1 state0))
       = [(app1, spec1, ''main'', head1, [], SyncStrategy_AUTO)]"
  by (simp add: run_defs concrete_defs emitted_def)

end
